theory Spec2Isabelle
  imports Main "HOL-Library.AList"
begin

section \<open>JavaScript strings and plain objects\<close>

text \<open>
  Strings of the program are modelled as HOL strings, read as sequences of the
  characters U+0000 to U+00FF. On that range \<^verbatim>\<open>toLowerCase\<close> maps A-Z and the
  capital letters U+00C0 to U+00DE (U+00D7 apart) to the letter 32 places
  further, and the white space of \<^verbatim>\<open>trim\<close> and of the pattern \<^verbatim>\<open>\s\<close> is
  tab, line feed, vertical tab, form feed, carriage return, space and U+00A0.
\<close>

datatype js_error = TypeError

definition toLowerChar :: "char \<Rightarrow> char" where
  "toLowerChar c =
     (let n = (of_char c :: nat) in
      if (65 \<le> n \<and> n \<le> 90) \<or> (192 \<le> n \<and> n \<le> 222 \<and> n \<noteq> 215)
      then char_of (n + 32) else c)"

definition toLowerCase :: "string \<Rightarrow> string" where
  "toLowerCase s = map toLowerChar s"

definition isWhiteSpace :: "char \<Rightarrow> bool" where
  "isWhiteSpace c = ((of_char c :: nat) \<in> {9, 10, 11, 12, 13, 32, 160})"

definition trim :: "string \<Rightarrow> string" where
  "trim s = rev (dropWhile isWhiteSpace (rev (dropWhile isWhiteSpace s)))"

text \<open>\<^verbatim>\<open>s.split(/\s+/)\<close>: the pieces between maximal runs of white space.\<close>

function splitWhiteSpace :: "string \<Rightarrow> string list" where
  "splitWhiteSpace s =
     (let piece = takeWhile (\<lambda>c. \<not> isWhiteSpace c) s;
          rest = dropWhile (\<lambda>c. \<not> isWhiteSpace c) s
      in if rest = [] then [piece]
         else piece # splitWhiteSpace (dropWhile isWhiteSpace rest))"
  by pat_completeness auto
termination
proof (relation "measure length")
  fix s piece rest
  assume r: "rest = dropWhile (\<lambda>c. \<not> isWhiteSpace c) s" and ne: "rest \<noteq> []"
  from ne obtain c cs where rc: "rest = c # cs" by (cases rest) auto
  with r have "isWhiteSpace c" by (metis hd_dropWhile list.sel(1) ne)
  then have "length (dropWhile isWhiteSpace rest) \<le> length cs"
    using rc by (simp add: length_dropWhile_le)
  moreover have "length rest \<le> length s" using r by (simp add: length_dropWhile_le)
  ultimately show "(dropWhile isWhiteSpace rest, s) \<in> measure length" using rc by simp
qed simp

declare splitWhiteSpace.simps [simp del]

text \<open>\<^verbatim>\<open>s.split(c)\<close> for a separator of one character.\<close>

fun splitChar :: "char \<Rightarrow> string \<Rightarrow> string list" where
  "splitChar c [] = [[]]"
| "splitChar c (x # xs) =
     (if x = c then [] # splitChar c xs
      else (case splitChar c xs of
              [] \<Rightarrow> [[x]]
            | w # ws \<Rightarrow> (x # w) # ws))"

text \<open>\<^verbatim>\<open>parts.join(sep)\<close>.\<close>

fun joinWith :: "string \<Rightarrow> string list \<Rightarrow> string" where
  "joinWith sep [] = []"
| "joinWith sep [w] = w"
| "joinWith sep (w # ws) = w @ sep @ joinWith sep ws"

abbreviation joinSpace :: "string list \<Rightarrow> string" where
  "joinSpace \<equiv> joinWith '' ''"

definition startsWith :: "string \<Rightarrow> string \<Rightarrow> bool" where
  "startsWith s p = (take (length p) s = p)"

text \<open>\<^verbatim>\<open>s.includes(sub)\<close>: \<open>sub\<close> occurs in \<open>s\<close> as a contiguous piece.\<close>

fun includesStr :: "string \<Rightarrow> string \<Rightarrow> bool" where
  "includesStr [] sub = (sub = [])"
| "includesStr (c # cs) sub = (startsWith (c # cs) sub \<or> includesStr cs sub)"

text \<open>\<^verbatim>\<open>s || undefined\<close>: the empty string is falsy.\<close>

definition orUndefined :: "string \<Rightarrow> string option" where
  "orUndefined s = (if s = [] then None else Some s)"

text \<open>
  An object literal, and an object read from JSON, inherits the properties of
  \<^verbatim>\<open>Object.prototype\<close>. Reading \<^verbatim>\<open>obj[key]\<close> gives the object's own value,
  else an inherited function or object when the key names one, else
  \<^verbatim>\<open>undefined\<close>. The own properties are kept as an association list in the
  order of \<^verbatim>\<open>Object.entries\<close>.
\<close>

definition Object_prototype_keys :: "string list" where
  "Object_prototype_keys =
     [''constructor'', ''__defineGetter__'', ''__defineSetter__'', ''hasOwnProperty'',
      ''__lookupGetter__'', ''__lookupSetter__'', ''isPrototypeOf'',
      ''propertyIsEnumerable'', ''toString'', ''valueOf'', ''__proto__'',
      ''toLocaleString'']"

datatype 'a property = Undefined | Own 'a | Inherited

definition getProperty :: "(string \<times> 'a) list \<Rightarrow> string \<Rightarrow> 'a property" where
  "getProperty obj key =
     (case map_of obj key of
        Some v \<Rightarrow> Own v
      | None \<Rightarrow> if key \<in> set Object_prototype_keys then Inherited else Undefined)"

section \<open>The command parser\<close>

text \<open>The table \<^verbatim>\<open>VERB_SYNONYMS\<close>, an object literal: its own properties in source order.\<close>

definition VERB_SYNONYMS :: "(string \<times> string) list" where
  "VERB_SYNONYMS =
     [(''go'', ''go''), (''walk'', ''go''), (''run'', ''go''), (''move'', ''go''),
      (''travel'', ''go''), (''head'', ''go''), (''n'', ''go north''),
      (''north'', ''go north''), (''s'', ''go south''), (''south'', ''go south''),
      (''e'', ''go east''), (''east'', ''go east''), (''w'', ''go west''),
      (''west'', ''go west''), (''u'', ''go up''), (''up'', ''go up''),
      (''d'', ''go down''), (''down'', ''go down''), (''enter'', ''go''),
      (''exit'', ''go''), (''climb'', ''climb''), (''jump'', ''jump''),
      (''swim'', ''swim''), (''dive'', ''dive''), (''look'', ''look''), (''l'', ''look''),
      (''examine'', ''examine''), (''x'', ''examine''), (''inspect'', ''examine''),
      (''read'', ''read''), (''search'', ''search''), (''listen'', ''listen''),
      (''smell'', ''smell''), (''taste'', ''taste''), (''take'', ''take''),
      (''get'', ''take''), (''grab'', ''take''), (''pick'', ''take''),
      (''pickup'', ''take''), (''drop'', ''drop''), (''leave'', ''drop''),
      (''put'', ''put''), (''place'', ''put''), (''insert'', ''insert''),
      (''remove'', ''remove''), (''wear'', ''equip''), (''equip'', ''equip''),
      (''wield'', ''equip''), (''unequip'', ''unequip''), (''unwield'', ''unequip''),
      (''doff'', ''unequip''), (''open'', ''open''), (''close'', ''close''),
      (''shut'', ''close''), (''lock'', ''lock''), (''unlock'', ''unlock''),
      (''push'', ''push''), (''pull'', ''pull''), (''turn'', ''turn''),
      (''rotate'', ''turn''), (''break'', ''break''), (''smash'', ''break''),
      (''hit'', ''attack''), (''attack'', ''attack''), (''fight'', ''attack''),
      (''kill'', ''attack''), (''stab'', ''attack''), (''strike'', ''attack''),
      (''touch'', ''touch''), (''rub'', ''rub''), (''use'', ''use''),
      (''light'', ''light''), (''extinguish'', ''extinguish''), (''burn'', ''burn''),
      (''pour'', ''pour''), (''fill'', ''fill''), (''drink'', ''drink''),
      (''eat'', ''eat''), (''throw'', ''throw''), (''toss'', ''throw''),
      (''raise'', ''raise''), (''lower'', ''lower''), (''ring'', ''ring''),
      (''knock'', ''knock''), (''press'', ''press''), (''wave'', ''wave''),
      (''tie'', ''tie''), (''untie'', ''untie''), (''say'', ''say''), (''speak'', ''say''),
      (''shout'', ''shout''), (''yell'', ''shout''), (''ask'', ''ask''),
      (''tell'', ''tell''), (''talk'', ''talk''), (''pray'', ''pray''),
      (''cast'', ''cast''), (''think'', ''think''), (''wait'', ''wait''),
      (''z'', ''wait''), (''sleep'', ''sleep''), (''rest'', ''rest''),
      (''inventory'', ''inventory''), (''i'', ''inventory''), (''inv'', ''inventory''),
      (''help'', ''help''), (''?'', ''help''), (''save'', ''save''), (''load'', ''load''),
      (''restore'', ''load''), (''quit'', ''quit''), (''q'', ''quit''),
      (''restart'', ''restart''), (''reset'', ''restart''), (''status'', ''status''),
      (''stats'', ''status''), (''score'', ''score''), (''map'', ''map''),
      (''hint'', ''hint''), (''hints'', ''hint'')]"

definition PREPOSITIONS :: "string list" where
  "PREPOSITIONS =
     [''in'', ''into'', ''on'', ''onto'', ''with'', ''using'', ''to'', ''at'',
      ''from'', ''off'', ''under'', ''behind'', ''through'', ''about'', ''around'']"

definition ARTICLES :: "string list" where
  "ARTICLES = [''a'', ''an'', ''the'', ''some'', ''my'']"

record ParsedCommand =
  verb :: string
  noun :: "string option"
  preposition :: "string option"
  indirectObject :: "string option"
  raw :: string
  valid :: bool
  errorMessage :: "string option"

definition tokenize :: "string \<Rightarrow> string list" where
  "tokenize input = filter (\<lambda>token. length token > 0) (splitWhiteSpace input)"

text \<open>
  The loop that looks for the first preposition, from index \<open>i\<close> on: the index and
  the token where it breaks, \<open>None\<close> when it runs to the end (the index stays -1).
\<close>

function findPreposition :: "string list \<Rightarrow> nat \<Rightarrow> (nat \<times> string) option" where
  "findPreposition objectTokens i =
     (if i < length objectTokens
      then (if objectTokens ! i \<in> set PREPOSITIONS then Some (i, objectTokens ! i)
            else findPreposition objectTokens (Suc i))
      else None)"
  by pat_completeness auto
termination
  by (relation "measure (\<lambda>(objectTokens, i). length objectTokens - i)") auto

declare findPreposition.simps [simp del]

text \<open>
  \<^verbatim>\<open>parse\<close>. Where the first token names a property that the table inherits, the
  value read is a function or an object, which is truthy and has no
  \<^verbatim>\<open>startsWith\<close>: the call throws a \<^verbatim>\<open>TypeError\<close>.
\<close>

definition parse :: "string \<Rightarrow> js_error + ParsedCommand" where
  "parse input =
     (let normalized = trim (toLowerCase input) in
      if normalized = [] then
        Inr \<lparr>verb = [], noun = None, preposition = None, indirectObject = None,
             raw = input, valid = False, errorMessage = Some ''Please enter a command.''\<rparr>
      else
        (case tokenize normalized of
           [] \<Rightarrow>
             Inr \<lparr>verb = [], noun = None, preposition = None, indirectObject = None,
                  raw = input, valid = False, errorMessage = Some ''I don't understand that.''\<rparr>
         | firstToken # remaining \<Rightarrow>
             (case getProperty VERB_SYNONYMS firstToken of
                Inherited \<Rightarrow> Inl TypeError
              | Undefined \<Rightarrow>
                  Inr \<lparr>verb = firstToken, noun = None, preposition = None, indirectObject = None,
                       raw = input, valid = False,
                       errorMessage = Some (''I don't know how to \"'' @ firstToken @ ''\".'')\<rparr>
              | Own canonicalVerb \<Rightarrow>
                  if canonicalVerb \<noteq> [] \<and> startsWith canonicalVerb ''go '' then
                    Inr \<lparr>verb = ''go'',
                         noun = (case splitChar CHR '' '' canonicalVerb of
                                   _ # direction # _ \<Rightarrow> Some direction
                                 | _ \<Rightarrow> None),
                         preposition = None, indirectObject = None,
                         raw = input, valid = True, errorMessage = None\<rparr>
                  else if canonicalVerb = [] then
                    Inr \<lparr>verb = firstToken, noun = None, preposition = None,
                         indirectObject = None, raw = input, valid = False,
                         errorMessage = Some (''I don't know how to \"'' @ firstToken @ ''\".'')\<rparr>
                  else if remaining = [] then
                    Inr \<lparr>verb = canonicalVerb, noun = None, preposition = None,
                         indirectObject = None, raw = input, valid = True, errorMessage = None\<rparr>
                  else
                    (let objectTokens = filter (\<lambda>t. t \<notin> set ARTICLES) remaining in
                     if objectTokens = [] then
                       Inr \<lparr>verb = canonicalVerb, noun = None, preposition = None,
                            indirectObject = None, raw = input, valid = True,
                            errorMessage = None\<rparr>
                     else
                       (case findPreposition objectTokens 0 of
                          None \<Rightarrow>
                            Inr \<lparr>verb = canonicalVerb,
                                 noun = orUndefined (joinSpace objectTokens),
                                 preposition = None, indirectObject = None,
                                 raw = input, valid = True, errorMessage = None\<rparr>
                        | Some (prepositionIndex, prep) \<Rightarrow>
                            if prepositionIndex > 0 then
                              Inr \<lparr>verb = canonicalVerb,
                                   noun = orUndefined (joinSpace (take prepositionIndex objectTokens)),
                                   preposition = Some prep,
                                   indirectObject =
                                     orUndefined (joinSpace (drop (prepositionIndex + 1) objectTokens)),
                                   raw = input, valid = True, errorMessage = None\<rparr>
                            else
                              Inr \<lparr>verb = canonicalVerb,
                                   noun = orUndefined (joinSpace (drop 1 objectTokens)),
                                   preposition = Some (objectTokens ! 0), indirectObject = None,
                                   raw = input, valid = True, errorMessage = None\<rparr>)))))"

section \<open>The world model\<close>

text \<open>
  The records follow the interfaces of the shared types. A field of a record that
  the engine neither reads nor writes (a room's environment, hooks, special
  verbs, progression and meta data, a session's socket) is left out. Numbers are
  integers: the model is exact as long as they stay below 2 to the power 53 in magnitude,
  where the arithmetic of the program is exact and its template strings print
  every digit. An object used as a dictionary is the association list of its own
  properties.
\<close>

datatype EquipmentSlot = weapon | armor | accessory | light_source

fun slotName :: "EquipmentSlot \<Rightarrow> string" where
  "slotName weapon = ''weapon''"
| "slotName armor = ''armor''"
| "slotName accessory = ''accessory''"
| "slotName light_source = ''light_source''"

record PlayerStats =
  Physical :: int
  Mental :: int
  Resilience :: int

record StatusEffect =
  effect_id :: string
  effect_name :: string
  duration :: int
  effects :: "(string \<times> int) list"

record InventoryItem =
  item_id :: string
  item_name :: string
  item_description :: string
  quantity :: int
  equippable :: bool
  item_equipmentSlot :: "EquipmentSlot option"
  usable :: bool
  weight :: int

text \<open>
  An entry \<open>None\<close> of \<open>visitedRooms\<close> is the value \<^verbatim>\<open>undefined\<close>, which the go
  handler pushes when the direction names an inherited property of the exits
  object.
\<close>

record PlayerState =
  player_name :: string
  gold :: int
  hp :: int
  maxHp :: int
  mp :: int
  maxMp :: int
  xp :: int
  level :: int
  stats :: PlayerStats
  inventory :: "InventoryItem list"
  equippedItems :: "(EquipmentSlot \<times> string) list"
  statusEffects :: "StatusEffect list"
  skills :: "string list"
  location :: string
  player_notes :: "string list"
  visitedRooms :: "string option list"
  flags :: "(string \<times> bool) list"

datatype RequirementType = RequiresItem | RequiresState | RequiresSkill | RequiresStat

record ExitRequirement =
  req_type :: RequirementType
  req_id :: string
  req_value :: "int option"

record RoomExit =
  exit_to :: string
  visible :: bool
  oneWay :: bool
  requires :: "ExitRequirement option"
  blockedMessage :: "string option"
  travelText :: string

datatype InitialLocation = InRoom | InContainer | InHidden

datatype Visibility = Always | Conditional | Hidden

record RoomObject =
  obj_id :: string
  obj_name :: string
  synonyms :: "string list option"
  obj_description :: string
  initialLocation :: InitialLocation
  visibility :: Visibility
  requiresLight :: bool
  takeable :: bool
  taken :: bool
  interactable :: bool
  examineText :: string
  obj_equipmentSlot :: "EquipmentSlot option"
  stateChanges :: "(string \<times> string) list option"

record RoomNPC =
  npc_id :: string
  npc_name :: string
  npc_description :: string
  hostile :: bool
  spawnConditions :: "string list"
  despawnConditions :: "string list"
  behavior :: string
  dialogue :: "(string \<times> string) list option"

record RoomIdentity =
  room_id :: string
  canonicalName :: string
  aliases :: "string list"
  region :: string
  zone :: string

record RoomDescriptions =
  initial :: string
  long :: string
  short :: string
  desc_visited :: string
  dark :: string
  dynamicVariants :: "(string \<times> string) list"

record DarknessBehavior =
  grueEnabled :: bool
  suppressExits :: bool
  suppressObjects :: bool

record RoomLighting =
  isLit :: bool
  lightSourcesAllowed :: bool
  darknessBehavior :: DarknessBehavior

record Room =
  identity :: RoomIdentity
  descriptions :: RoomDescriptions
  lighting :: RoomLighting
  exits :: "(string \<times> RoomExit) list"
  objects :: "RoomObject list"
  npcs :: "RoomNPC list"
  state :: "(string \<times> bool) list"

record GameConfig =
  maxInventoryWeight :: int
  baseHp :: int
  baseMp :: int
  xpPerLevel :: int
  deathHpPenalty :: int
  deathMpPenalty :: int
  restHpRecovery :: int
  restMpRecovery :: int

definition DEFAULT_CONFIG :: GameConfig where
  "DEFAULT_CONFIG =
     \<lparr>maxInventoryWeight = 100, baseHp = 100, baseMp = 50, xpPerLevel = 1000,
      deathHpPenalty = 20, deathMpPenalty = 10, restHpRecovery = 25, restMpRecovery = 15\<rparr>"

text \<open>
  The engine: the room store (a \<^verbatim>\<open>Map\<close>, in insertion order), the configuration
  and the global flags (a \<^verbatim>\<open>Map\<close> too, so with no inherited keys).
\<close>

record GameEngine =
  rooms :: "(string \<times> Room) list"
  config :: GameConfig
  worldState :: "(string \<times> bool) list"

record GameSession =
  session_id :: string
  player :: PlayerState
  connected :: bool
  lastActivity :: int
  inCombat :: bool
  currentEnemy :: "string option"

text \<open>
  The result of a command. \<open>changes\<close> is the \<^verbatim>\<open>stateChanges\<close> object, with the keys
  that the handlers set.
\<close>

record StateChanges =
  sc_skills :: "string list option"
  sc_location :: "string option"
  sc_visitedRooms :: "string option list option"
  sc_inventory :: "InventoryItem list option"
  sc_flags :: "(string \<times> bool) list option"
  sc_hp :: "int option"
  sc_mp :: "int option"
  sc_equippedItems :: "(EquipmentSlot \<times> string) list option"

definition noChanges :: StateChanges where
  "noChanges =
     \<lparr>sc_skills = None, sc_location = None, sc_visitedRooms = None, sc_inventory = None,
      sc_flags = None, sc_hp = None, sc_mp = None, sc_equippedItems = None\<rparr>"

record CommandResult =
  success :: bool
  message :: string
  changes :: "StateChanges option"
  roomChanged :: "bool option"
  combatTriggered :: "bool option"
  modalData :: "(string \<times> string) option"

text \<open>A result \<^verbatim>\<open>{ success, message }\<close> with no other key.\<close>

definition reply :: "bool \<Rightarrow> string \<Rightarrow> CommandResult" where
  "reply ok msg =
     \<lparr>success = ok, message = msg, changes = None, roomChanged = None,
      combatTriggered = None, modalData = None\<rparr>"

section \<open>The game engine\<close>

subsection \<open>Helpers for the built-in operations\<close>

text \<open>
  \<^verbatim>\<open>obj[key]\<close> read for its truth value, on an object whose own values are booleans:
  an inherited property is a function or an object, hence truthy.
\<close>

definition truthyFlag :: "(string \<times> bool) list \<Rightarrow> string \<Rightarrow> bool" where
  "truthyFlag obj key =
     (case getProperty obj key of
        Own b \<Rightarrow> b
      | Inherited \<Rightarrow> True
      | Undefined \<Rightarrow> False)"

text \<open>\<^verbatim>\<open>xs.findIndex(p)\<close>, with \<open>None\<close> for -1.\<close>

fun findIndex :: "('a \<Rightarrow> bool) \<Rightarrow> 'a list \<Rightarrow> nat option" where
  "findIndex p [] = None"
| "findIndex p (x # xs) =
     (if p x then Some 0 else map_option Suc (findIndex p xs))"

text \<open>\<^verbatim>\<open>xs.splice(i, 1)\<close>.\<close>

definition splice1 :: "nat \<Rightarrow> 'a list \<Rightarrow> 'a list" where
  "splice1 i xs = take i xs @ drop (Suc i) xs"

text \<open>A number in a template string.\<close>

function showNat :: "nat \<Rightarrow> string" where
  "showNat n =
     (if n < 10 then [''0123456789'' ! n]
      else showNat (n div 10) @ [''0123456789'' ! (n mod 10)])"
  by pat_completeness auto
termination
  by (relation "measure id") auto

declare showNat.simps [simp del]

definition showInt :: "int \<Rightarrow> string" where
  "showInt i = (if i < 0 then ''-'' @ showNat (nat (- i)) else showNat (nat i))"

text \<open>
  The test by which the handlers match an object of a room against the noun of
  a command: the id, a piece of the name, or a piece of a synonym.
\<close>

definition matchesObject :: "RoomObject \<Rightarrow> string \<Rightarrow> bool" where
  "matchesObject o' noun' =
     (obj_id o' = noun' \<or>
      includesStr (toLowerCase (obj_name o')) (toLowerCase noun') \<or>
      (case synonyms o' of
         None \<Rightarrow> False
       | Some syns \<Rightarrow>
           list_ex (\<lambda>synonym. includesStr (toLowerCase synonym) (toLowerCase noun')) syns))"

text \<open>The same test on an inventory entry: the id or a piece of the name.\<close>

definition matchesItem :: "InventoryItem \<Rightarrow> string \<Rightarrow> bool" where
  "matchesItem i noun' =
     (item_id i = noun' \<or> includesStr (toLowerCase (item_name i)) (toLowerCase noun'))"

text \<open>\<^verbatim>\<open>if (command.noun)\<close>: the noun when it is a non-empty string.\<close>

definition truthyNoun :: "ParsedCommand \<Rightarrow> string option" where
  "truthyNoun command = (case noun command of None \<Rightarrow> None | Some n \<Rightarrow> orUndefined n)"

subsection \<open>Store and player\<close>

definition loadRooms :: "GameEngine \<Rightarrow> Room list \<Rightarrow> GameEngine" where
  "loadRooms engine roomData =
     engine\<lparr>rooms := fold (\<lambda>room store. AList.update (room_id (identity room)) room store)
                         roomData (rooms engine)\<rparr>"

definition createNewPlayer :: "GameEngine \<Rightarrow> string \<Rightarrow> string \<Rightarrow> PlayerState" where
  "createNewPlayer engine name startingRoom =
     \<lparr>player_name = name, gold = 0,
      hp = baseHp (config engine), maxHp = baseHp (config engine),
      mp = baseMp (config engine), maxMp = baseMp (config engine),
      xp = 0, level = 1,
      stats = \<lparr>Physical = 10, Mental = 10, Resilience = 10\<rparr>,
      inventory = [], equippedItems = [], statusEffects = [], skills = [],
      location = startingRoom, player_notes = [], visitedRooms = [], flags = []\<rparr>"

definition getRoom :: "GameEngine \<Rightarrow> string \<Rightarrow> Room option" where
  "getRoom engine roomId = map_of (rooms engine) roomId"

definition getCurrentRoom :: "GameEngine \<Rightarrow> GameSession \<Rightarrow> Room option" where
  "getCurrentRoom engine session = map_of (rooms engine) (location (player session))"

definition setWorldState :: "GameEngine \<Rightarrow> string \<Rightarrow> bool \<Rightarrow> GameEngine" where
  "setWorldState engine key v = engine\<lparr>worldState := AList.update key v (worldState engine)\<rparr>"

definition getWorldState :: "GameEngine \<Rightarrow> string \<Rightarrow> bool" where
  "getWorldState engine key = (case map_of (worldState engine) key of Some v \<Rightarrow> v | None \<Rightarrow> False)"

subsection \<open>Light, spawn conditions, descriptions and exits\<close>

definition hasLight :: "Room \<Rightarrow> PlayerState \<Rightarrow> bool" where
  "hasLight room p =
     (if isLit (lighting room) then True
      else (case map_of (equippedItems p) light_source of
              Some lightId \<Rightarrow>
                if lightId \<noteq> [] then truthyFlag (flags p) (lightId @ ''_on'') else False
            | None \<Rightarrow> False))"

fun checkNpcSpawnConditions :: "string list \<Rightarrow> Room \<Rightarrow> PlayerState \<Rightarrow> bool" where
  "checkNpcSpawnConditions [] room p = True"
| "checkNpcSpawnConditions (condition # conditions) room p =
     (if condition = ''darkness'' then
        (if hasLight room p then False else checkNpcSpawnConditions conditions room p)
      else if condition = ''light_present'' then
        (if \<not> hasLight room p then False else checkNpcSpawnConditions conditions room p)
      else checkNpcSpawnConditions conditions room p)"

text \<open>
  \<^verbatim>\<open>getRoomDescription\<close>, block by block: the variant chosen from the visit status,
  the first dynamic variant whose room flag is set, the objects, exits and NPCs
  that are listed.
\<close>

definition chooseDescription :: "Room \<Rightarrow> PlayerState \<Rightarrow> bool \<Rightarrow> bool \<Rightarrow> string" where
  "chooseDescription room p verbose lit =
     (let wasVisited = (Some (room_id (identity room)) \<in> set (visitedRooms p)) in
      if \<not> isLit (lighting room) \<and> lit then long (descriptions room)
      else if verbose \<or> \<not> wasVisited then
        (if wasVisited then long (descriptions room) else initial (descriptions room))
      else
        (if desc_visited (descriptions room) \<noteq> [] then desc_visited (descriptions room)
         else short (descriptions room)))"

definition activeVariant :: "Room \<Rightarrow> (string \<times> string) option" where
  "activeVariant room =
     find (\<lambda>(variant, text). truthyFlag (state room) variant)
       (dynamicVariants (descriptions room))"

definition visibleObjects :: "Room \<Rightarrow> bool \<Rightarrow> RoomObject list" where
  "visibleObjects room lit =
     filter (\<lambda>obj. \<not> taken obj \<and>
               (visibility obj = Always \<or>
                (visibility obj = Conditional \<and> (\<not> requiresLight obj \<or> lit))))
       (objects room)"

definition visibleExits :: "Room \<Rightarrow> string list" where
  "visibleExits room = map fst (filter (\<lambda>(direction, exit). visible exit) (exits room))"

definition visibleNpcs :: "Room \<Rightarrow> PlayerState \<Rightarrow> RoomNPC list" where
  "visibleNpcs room p =
     filter (\<lambda>npc. checkNpcSpawnConditions (spawnConditions npc) room p) (npcs room)"

definition getRoomDescription :: "Room \<Rightarrow> PlayerState \<Rightarrow> bool \<Rightarrow> string" where
  "getRoomDescription room p verbose =
     (let lit = hasLight room p in
      if \<not> lit then dark (descriptions room)
      else
        (let chosen = chooseDescription room p verbose lit;
             withVariant =
               (case activeVariant room of
                  Some (variant, text) \<Rightarrow> text
                | None \<Rightarrow> chosen);
             withObjects =
               (if length (visibleObjects room lit) > 0 then
                  withVariant @ ''\<newline>\<newline>You can see: ''
                    @ joinWith '', '' (map obj_name (visibleObjects room lit))
                else withVariant);
             withExits =
               (if length (visibleExits room) > 0 \<and> lit then
                  withObjects @ ''\<newline>\<newline>Exits: '' @ joinWith '', '' (visibleExits room)
                else withObjects)
         in foldl (\<lambda>description npc. description @ ''\<newline>\<newline>'' @ npc_description npc)
              withExits (visibleNpcs room p)))"

datatype ExitCheck = Allowed | Blocked string

text \<open>\<^verbatim>\<open>exit.blockedMessage || fallback\<close>.\<close>

definition blockedOr :: "RoomExit \<Rightarrow> string \<Rightarrow> string" where
  "blockedOr exit fallback =
     (case blockedMessage exit of
        Some m \<Rightarrow> if m \<noteq> [] then m else fallback
      | None \<Rightarrow> fallback)"

text \<open>
  \<^verbatim>\<open>player.stats[id]\<close>: the number of a stat, else a value that is no number, with
  which every comparison is false.
\<close>

definition statValue :: "PlayerStats \<Rightarrow> string \<Rightarrow> int option" where
  "statValue st key =
     (if key = ''Physical'' then Some (Physical st)
      else if key = ''Mental'' then Some (Mental st)
      else if key = ''Resilience'' then Some (Resilience st)
      else None)"

definition canUseExit :: "GameEngine \<Rightarrow> RoomExit \<Rightarrow> PlayerState \<Rightarrow> ExitCheck" where
  "canUseExit engine exit p =
     (case requires exit of
        None \<Rightarrow> Allowed
      | Some r \<Rightarrow>
          (case req_type r of
             RequiresItem \<Rightarrow>
               if list_ex (\<lambda>item. item_id item = req_id r) (inventory p) then Allowed
               else Blocked (blockedOr exit ''You can't go that way.'')
           | RequiresState \<Rightarrow>
               if getWorldState engine (req_id r) then Allowed
               else Blocked (blockedOr exit ''The way is blocked.'')
           | RequiresSkill \<Rightarrow>
               if req_id r \<in> set (skills p) then Allowed
               else Blocked (blockedOr exit ''You lack the required skill.'')
           | RequiresStat \<Rightarrow>
               (case statValue (stats p) (req_id r) of
                  Some v \<Rightarrow>
                    if v < (case req_value r of Some n \<Rightarrow> n | None \<Rightarrow> 0)
                    then Blocked (blockedOr exit ''You're not capable of that.'')
                    else Allowed
                | None \<Rightarrow> Allowed)))"

subsection \<open>Command handlers\<close>

text \<open>
  A handler takes the engine and the session as they are and returns them as it
  leaves them, with its result. A room that it mutates is the one stored under
  the player's location, so the store is updated under that key.
\<close>

type_synonym outcome = "GameEngine \<times> GameSession \<times> CommandResult"

definition storeRoom :: "GameEngine \<Rightarrow> string \<Rightarrow> Room \<Rightarrow> GameEngine" where
  "storeRoom engine roomId room = engine\<lparr>rooms := AList.update roomId room (rooms engine)\<rparr>"

text \<open>The element that \<^verbatim>\<open>xs.find(p)\<close> returns, mutated in place.\<close>

fun updateFirst :: "('a \<Rightarrow> bool) \<Rightarrow> ('a \<Rightarrow> 'a) \<Rightarrow> 'a list \<Rightarrow> 'a list" where
  "updateFirst p f [] = []"
| "updateFirst p f (x # xs) = (if p x then f x # xs else x # updateFirst p f xs)"

text \<open>\<^verbatim>\<open>obj.examineText || obj.description\<close>.\<close>

definition examineOr :: "RoomObject \<Rightarrow> string" where
  "examineOr obj = (if examineText obj \<noteq> [] then examineText obj else obj_description obj)"

text \<open>\<^verbatim>\<open>obj.stateChanges?.ability_learned\<close>, when it is a non-empty string.\<close>

definition abilityLearned :: "RoomObject \<Rightarrow> string option" where
  "abilityLearned obj =
     (case stateChanges obj of
        None \<Rightarrow> None
      | Some sc \<Rightarrow> (case map_of sc ''ability_learned'' of None \<Rightarrow> None | Some a \<Rightarrow> orUndefined a))"

definition handleLook :: "GameEngine \<Rightarrow> GameSession \<Rightarrow> ParsedCommand \<Rightarrow> outcome" where
  "handleLook engine session command =
     (case getCurrentRoom engine session of
        None \<Rightarrow> (engine, session, reply False ''Error: You are nowhere.'')
      | Some room \<Rightarrow>
          (case truthyNoun command of
             None \<Rightarrow>
               (engine, session, reply True (getRoomDescription room (player session) True))
           | Some n \<Rightarrow>
               (case find (\<lambda>o'. matchesObject o' n) (objects room) of
                  Some obj \<Rightarrow>
                    (case abilityLearned obj of
                       None \<Rightarrow> (engine, session, reply True (examineOr obj))
                     | Some skillId \<Rightarrow>
                         if truthyFlag (state room) skillId then
                           (engine, session, reply True (examineOr obj))
                         else
                           (let engine' = storeRoom engine (location (player session))
                                  (room\<lparr>state := AList.update skillId True (state room)\<rparr>)
                            in if skillId \<in> set (skills (player session)) then
                                 (engine', session, reply True (examineOr obj))
                               else
                                 (let learned = skills (player session) @ [skillId] in
                                  (engine',
                                   session\<lparr>player := (player session)\<lparr>skills := learned\<rparr>\<rparr>,
                                   (reply True (examineOr obj))
                                     \<lparr>changes := Some (noChanges\<lparr>sc_skills := Some learned\<rparr>)\<rparr>))))
                | None \<Rightarrow>
                    (case find (\<lambda>n'. npc_id n' = n \<or>
                                  includesStr (toLowerCase (npc_name n')) (toLowerCase n))
                            (npcs room) of
                       Some npc \<Rightarrow> (engine, session, reply True (npc_description npc))
                     | None \<Rightarrow>
                         (engine, session,
                          reply False (''You don't see any \"'' @ n @ ''\" here.''))))))"

text \<open>
  The go handler. When the direction names a property that the exits object
  inherits, \<^verbatim>\<open>exit\<close> is a function or an object with neither \<^verbatim>\<open>requires\<close> nor
  \<^verbatim>\<open>to\<close>: the gate lets it pass, the location becomes \<^verbatim>\<open>undefined\<close>, which is
  pushed on \<open>visitedRooms\<close>, no room is found and the location is restored.
\<close>

definition handleGo :: "GameEngine \<Rightarrow> GameSession \<Rightarrow> ParsedCommand \<Rightarrow> outcome" where
  "handleGo engine session command =
     (case getCurrentRoom engine session of
        None \<Rightarrow> (engine, session, reply False ''Error: You are nowhere.'')
      | Some room \<Rightarrow>
          (case (case noun command of None \<Rightarrow> None | Some n \<Rightarrow> orUndefined (toLowerCase n)) of
             None \<Rightarrow> (engine, session, reply False ''Go where?'')
           | Some direction \<Rightarrow>
               (case getProperty (exits room) direction of
                  Undefined \<Rightarrow> (engine, session, reply False ''You can't go that way.'')
                | Inherited \<Rightarrow>
                    (let visited' =
                           (if None \<in> set (visitedRooms (player session))
                            then visitedRooms (player session)
                            else visitedRooms (player session) @ [None])
                     in (engine,
                         session\<lparr>player := (player session)\<lparr>visitedRooms := visited'\<rparr>\<rparr>,
                         reply False ''Error: That room doesn't exist.''))
                | Own exit \<Rightarrow>
                    (case canUseExit engine exit (player session) of
                       Blocked msg \<Rightarrow> (engine, session, reply False msg)
                     | Allowed \<Rightarrow>
                         (let previousRoom = location (player session);
                              visited' =
                                (if Some (exit_to exit) \<in> set (visitedRooms (player session))
                                 then visitedRooms (player session)
                                 else visitedRooms (player session) @ [Some (exit_to exit)]);
                              moved = (player session)
                                        \<lparr>location := exit_to exit, visitedRooms := visited'\<rparr>
                          in (case getRoom engine (exit_to exit) of
                                None \<Rightarrow>
                                  (engine,
                                   session\<lparr>player := moved\<lparr>location := previousRoom\<rparr>\<rparr>,
                                   reply False ''Error: That room doesn't exist.'')
                              | Some newRoom \<Rightarrow>
                                  (let hostileNpc =
                                         find (\<lambda>npc. hostile npc \<and>
                                                 checkNpcSpawnConditions (spawnConditions npc)
                                                   newRoom moved)
                                           (npcs newRoom);
                                       text =
                                         (if travelText exit \<noteq> []
                                          then travelText exit @ ''\<newline>\<newline>'' else [])
                                         @ getRoomDescription newRoom moved False;
                                       delta = noChanges\<lparr>sc_location := Some (exit_to exit),
                                                 sc_visitedRooms := Some visited'\<rparr>
                                   in (case hostileNpc of
                                         None \<Rightarrow>
                                           (engine, session\<lparr>player := moved\<rparr>,
                                            \<lparr>success = True, message = text,
                                             changes = Some delta, roomChanged = Some True,
                                             combatTriggered = Some False, modalData = None\<rparr>)
                                       | Some npc \<Rightarrow>
                                           (engine,
                                            session\<lparr>player := moved, inCombat := True,
                                              currentEnemy := Some (npc_id npc)\<rparr>,
                                            \<lparr>success = True,
                                             message = text @ ''\<newline>\<newline>**'' @ npc_name npc
                                               @ '' attacks!**'',
                                             changes = Some delta, roomChanged = Some True,
                                             combatTriggered = Some True,
                                             modalData = None\<rparr>)))))))))"

definition handleTake :: "GameEngine \<Rightarrow> GameSession \<Rightarrow> ParsedCommand \<Rightarrow> outcome" where
  "handleTake engine session command =
     (case getCurrentRoom engine session of
        None \<Rightarrow> (engine, session, reply False ''Error: You are nowhere.'')
      | Some room \<Rightarrow>
          (case truthyNoun command of
             None \<Rightarrow> (engine, session, reply False ''Take what?'')
           | Some n \<Rightarrow>
               (case find (\<lambda>o'. takeable o' \<and> \<not> taken o' \<and> matchesObject o' n)
                       (objects room) of
                  None \<Rightarrow> (engine, session, reply False (''You can't take \"'' @ n @ ''\".''))
                | Some obj \<Rightarrow>
                    if taken obj then
                      (engine, session, reply False ''You've already taken that.'')
                    else
                      (let carried = inventory (player session) @
                             [\<lparr>item_id = obj_id obj, item_name = obj_name obj,
                               item_description = obj_description obj, quantity = 1,
                               equippable = (obj_equipmentSlot obj \<noteq> None),
                               item_equipmentSlot = obj_equipmentSlot obj,
                               usable = True, weight = 1\<rparr>];
                           room' = room\<lparr>objects :=
                             updateFirst (\<lambda>o'. takeable o' \<and> \<not> taken o' \<and> matchesObject o' n)
                               (\<lambda>o'. o'\<lparr>taken := True\<rparr>) (objects room)\<rparr>
                       in (storeRoom engine (location (player session)) room',
                           session\<lparr>player := (player session)\<lparr>inventory := carried\<rparr>\<rparr>,
                           (reply True (''You take the '' @ obj_name obj @ ''.''))
                             \<lparr>changes := Some (noChanges\<lparr>sc_inventory := Some carried\<rparr>)\<rparr>)))))"

definition handleDrop :: "GameEngine \<Rightarrow> GameSession \<Rightarrow> ParsedCommand \<Rightarrow> outcome" where
  "handleDrop engine session command =
     (case truthyNoun command of
        None \<Rightarrow> (engine, session, reply False ''Drop what?'')
      | Some n \<Rightarrow>
          (case findIndex (\<lambda>i. matchesItem i n) (inventory (player session)) of
             None \<Rightarrow> (engine, session, reply False (''You don't have \"'' @ n @ ''\".''))
           | Some itemIndex \<Rightarrow>
               (let item = inventory (player session) ! itemIndex;
                    carried = splice1 itemIndex (inventory (player session))
                in (engine,
                    session\<lparr>player := (player session)\<lparr>inventory := carried\<rparr>\<rparr>,
                    (reply True (''You drop the '' @ item_name item @ ''.''))
                      \<lparr>changes := Some (noChanges\<lparr>sc_inventory := Some carried\<rparr>)\<rparr>))))"

definition handleExamine :: "GameEngine \<Rightarrow> GameSession \<Rightarrow> ParsedCommand \<Rightarrow> outcome" where
  "handleExamine engine session command = handleLook engine session command"

definition handleInventory :: "GameEngine \<Rightarrow> GameSession \<Rightarrow> ParsedCommand \<Rightarrow> outcome" where
  "handleInventory engine session command =
     (if length (inventory (player session)) = 0 then
        (engine, session, reply True ''You are carrying nothing.'')
      else
        (let items = joinWith ''\<newline>''
               (map (\<lambda>item. ''  - '' @ item_name item @
                             (if quantity item > 1 then '' (x'' @ showInt (quantity item) @ '')''
                              else []))
                  (inventory (player session)))
         in (engine, session, reply True (''You are carrying:\<newline>'' @ items))))"

definition handleUse :: "GameEngine \<Rightarrow> GameSession \<Rightarrow> ParsedCommand \<Rightarrow> outcome" where
  "handleUse engine session command =
     (case truthyNoun command of
        None \<Rightarrow> (engine, session, reply False ''Use what?'')
      | Some n \<Rightarrow>
          (case find (\<lambda>i. matchesItem i n) (inventory (player session)) of
             None \<Rightarrow> (engine, session, reply False (''You don't have \"'' @ n @ ''\".''))
           | Some item \<Rightarrow>
               if \<not> usable item then
                 (engine, session, reply False (''You can't use the '' @ item_name item @ ''.''))
               else (engine, session, reply True (''You use the '' @ item_name item @ ''.''))))"

text \<open>
  The loop over the rooms of the light handlers: whether some room holds an
  object with the equipped id that matches the noun.
\<close>

definition matchesEquipped :: "GameEngine \<Rightarrow> string \<Rightarrow> string \<Rightarrow> bool" where
  "matchesEquipped engine equippedId noun' =
     list_ex (\<lambda>(roomId, room).
                list_ex (\<lambda>o'. obj_id o' = equippedId \<and> matchesObject o' noun') (objects room))
       (rooms engine)"

text \<open>\<^verbatim>\<open>player.equippedItems.light_source\<close>, when it is a non-empty string.\<close>

definition equippedLight :: "PlayerState \<Rightarrow> string option" where
  "equippedLight p =
     (case map_of (equippedItems p) light_source of None \<Rightarrow> None | Some i \<Rightarrow> orUndefined i)"

definition handleLight :: "GameEngine \<Rightarrow> GameSession \<Rightarrow> ParsedCommand \<Rightarrow> outcome" where
  "handleLight engine session command =
     (case truthyNoun command of
        None \<Rightarrow> (engine, session, reply False ''Light what?'')
      | Some n \<Rightarrow>
          (case equippedLight (player session) of
             None \<Rightarrow>
               (engine, session,
                reply False ''You need to equip a light source first before you can turn it on.'')
           | Some equippedLightId \<Rightarrow>
               if \<not> matchesEquipped engine equippedLightId n then
                 (engine, session,
                  reply False (''You don't have \"'' @ n @ ''\" equipped as a light source.''))
               else if truthyFlag (flags (player session)) (equippedLightId @ ''_on'') then
                 (engine, session, reply False ''The light is already on.'')
               else
                 (let flags' = AList.update (equippedLightId @ ''_on'') True
                                 (flags (player session))
                  in (engine,
                      session\<lparr>player := (player session)\<lparr>flags := flags'\<rparr>\<rparr>,
                      (reply True
                         ''You turn on the flashlight. A bright beam illuminates the area.'')
                        \<lparr>changes := Some (noChanges\<lparr>sc_flags := Some flags'\<rparr>)\<rparr>))))"

definition handleExtinguish :: "GameEngine \<Rightarrow> GameSession \<Rightarrow> ParsedCommand \<Rightarrow> outcome" where
  "handleExtinguish engine session command =
     (case truthyNoun command of
        None \<Rightarrow> (engine, session, reply False ''Extinguish what?'')
      | Some n \<Rightarrow>
          (case equippedLight (player session) of
             None \<Rightarrow> (engine, session, reply False ''You don't have a light source equipped.'')
           | Some equippedLightId \<Rightarrow>
               if \<not> matchesEquipped engine equippedLightId n then
                 (engine, session,
                  reply False (''You don't have \"'' @ n @ ''\" equipped as a light source.''))
               else if \<not> truthyFlag (flags (player session)) (equippedLightId @ ''_on'') then
                 (engine, session, reply False ''The light is not on.'')
               else
                 (let flags' = AList.update (equippedLightId @ ''_on'') False
                                 (flags (player session))
                  in (engine,
                      session\<lparr>player := (player session)\<lparr>flags := flags'\<rparr>\<rparr>,
                      (reply True
                         ''You turn off the flashlight. The beam of light disappears.'')
                        \<lparr>changes := Some (noChanges\<lparr>sc_flags := Some flags'\<rparr>)\<rparr>))))"

definition handleTurn :: "GameEngine \<Rightarrow> GameSession \<Rightarrow> ParsedCommand \<Rightarrow> outcome" where
  "handleTurn engine session command =
     (case truthyNoun command of
        None \<Rightarrow> (engine, session, reply False ''Turn what?'')
      | Some n \<Rightarrow>
          (let given = (case preposition command of None \<Rightarrow> None | Some a \<Rightarrow> orUndefined a);
               parts = splitChar CHR '' '' n
           in if given = None \<and> length parts < 2 then
                (engine, session, reply False ''Turn what on or off?'')
              else
                (let action = (case given of Some a \<Rightarrow> a | None \<Rightarrow> toLowerCase (hd parts));
                     itemName = (case given of Some a \<Rightarrow> n | None \<Rightarrow> joinSpace (tl parts))
                 in if action = ''on'' then
                      handleLight engine session (command\<lparr>noun := Some itemName\<rparr>)
                    else if action = ''off'' then
                      handleExtinguish engine session (command\<lparr>noun := Some itemName\<rparr>)
                    else
                      (engine, session, reply False ''You can only turn things on or off.''))))"

definition handleOpen :: "GameEngine \<Rightarrow> GameSession \<Rightarrow> ParsedCommand \<Rightarrow> outcome" where
  "handleOpen engine session command =
     (case truthyNoun command of
        None \<Rightarrow> (engine, session, reply False ''Open what?'')
      | Some n \<Rightarrow> (engine, session, reply False (''You can't open the '' @ n @ ''.'')))"

definition handleClose :: "GameEngine \<Rightarrow> GameSession \<Rightarrow> ParsedCommand \<Rightarrow> outcome" where
  "handleClose engine session command =
     (case truthyNoun command of
        None \<Rightarrow> (engine, session, reply False ''Close what?'')
      | Some n \<Rightarrow> (engine, session, reply False (''You can't close the '' @ n @ ''.'')))"

definition handleAttack :: "GameEngine \<Rightarrow> GameSession \<Rightarrow> ParsedCommand \<Rightarrow> outcome" where
  "handleAttack engine session command =
     (if \<not> inCombat session then
        (engine, session, reply False ''There's nothing to attack here.'')
      else (engine, session, reply True ''You attack!''))"

definition handleCast :: "GameEngine \<Rightarrow> GameSession \<Rightarrow> ParsedCommand \<Rightarrow> outcome" where
  "handleCast engine session command =
     (case truthyNoun command of
        None \<Rightarrow> (engine, session, reply False ''Cast what spell?'')
      | Some n \<Rightarrow>
          if mp (player session) \<le> 0 then
            (engine, session,
             reply False ''You don't have enough mental energy to cast spells.'')
          else
            (engine, session,
             reply False (''You don't know a spell called \"'' @ n @ ''\".'')))"

definition handleRest :: "GameEngine \<Rightarrow> GameSession \<Rightarrow> ParsedCommand \<Rightarrow> outcome" where
  "handleRest engine session command =
     (if inCombat session then
        (engine, session, reply False ''You can't rest during combat!'')
      else
        (let p = player session;
             hpRecovered = min (restHpRecovery (config engine)) (maxHp p - hp p);
             mpRecovered = min (restMpRecovery (config engine)) (maxMp p - mp p);
             p' = p\<lparr>hp := hp p + hpRecovered, mp := mp p + mpRecovered\<rparr>
         in (engine, session\<lparr>player := p'\<rparr>,
             (reply True (''You rest for a while.\<newline>HP recovered: '' @ showInt hpRecovered
                          @ ''\<newline>MP recovered: '' @ showInt mpRecovered))
               \<lparr>changes := Some (noChanges\<lparr>sc_hp := Some (hp p'), sc_mp := Some (mp p')\<rparr>)\<rparr>)))"

definition helpText :: string where
  "helpText =
      ''\<newline>'' @
      ''**Available Commands:**\<newline>'' @
      ''\<newline>'' @
      ''**Movement:** go [direction], north, south, east, west, up, down\<newline>'' @
      ''**Looking:** look, examine [object]\<newline>'' @
      ''**Items:** take [item], drop [item], use [item], inventory\<newline>'' @
      ''**Equipment:** equip [item], unequip [item]\<newline>'' @
      ''**Light:** turn on [item], turn off [item], light [item], extinguish [item]\<newline>'' @
      ''**Interaction:** open [object], close [object]\<newline>'' @
      ''**Combat:** attack, cast [spell]\<newline>'' @
      ''**Other:** rest, help, restart\<newline>'' @
      ''\<newline>'' @
      ''**Tips:**\<newline>'' @
      ''- Examine everything carefully\<newline>'' @
      ''- Equip weapons, armor, accessories, and lights from your inventory\<newline>'' @
      ''- Watch your HP and MP\<newline>'' @
      ''- Some paths may require items or skills\<newline>'' @
      ''- Use flashlights to light up dark areas\<newline>'' @
      ''- Use 'restart' to begin again from the start\<newline>''"

definition handleHelp :: "GameEngine \<Rightarrow> GameSession \<Rightarrow> ParsedCommand \<Rightarrow> outcome" where
  "handleHelp engine session command = (engine, session, reply True helpText)"

definition handleEquip :: "GameEngine \<Rightarrow> GameSession \<Rightarrow> ParsedCommand \<Rightarrow> outcome" where
  "handleEquip engine session command =
     (case truthyNoun command of
        None \<Rightarrow> (engine, session, reply False ''Equip what?'')
      | Some n \<Rightarrow>
          (case findIndex (\<lambda>i. matchesItem i n) (inventory (player session)) of
             None \<Rightarrow> (engine, session, reply False (''You don't have \"'' @ n @ ''\".''))
           | Some itemIndex \<Rightarrow>
               (let item = inventory (player session) ! itemIndex in
                case (if equippable item then item_equipmentSlot item else None) of
                  None \<Rightarrow>
                    (engine, session,
                     reply False (''You can't equip the '' @ item_name item @ ''.''))
                | Some slot \<Rightarrow>
                    (let currentEquipped =
                           (case map_of (equippedItems (player session)) slot of
                              None \<Rightarrow> None
                            | Some c \<Rightarrow> orUndefined c);
                         currentItem =
                           (case currentEquipped of
                              None \<Rightarrow> None
                            | Some c \<Rightarrow> find (\<lambda>i. item_id i = c) (inventory (player session)))
                     in case currentItem of
                          Some held \<Rightarrow>
                            (engine, session,
                             reply False (''You already have '' @ item_name held
                               @ '' equipped in the '' @ slotName slot
                               @ '' slot. Unequip it first.''))
                        | None \<Rightarrow>
                            (let worn = AList.update slot (item_id item)
                                          (equippedItems (player session));
                                 carried = splice1 itemIndex (inventory (player session))
                             in (engine,
                                 session\<lparr>player := (player session)
                                   \<lparr>equippedItems := worn, inventory := carried\<rparr>\<rparr>,
                                 (reply True (''You equip the '' @ item_name item @ ''.''))
                                   \<lparr>changes := Some (noChanges\<lparr>sc_inventory := Some carried,
                                      sc_equippedItems := Some worn\<rparr>)\<rparr>))))))"

text \<open>The first object with the given id, room by room in the order of the store.\<close>

fun findDefinition :: "(string \<times> Room) list \<Rightarrow> string \<Rightarrow> RoomObject option" where
  "findDefinition [] itemId = None"
| "findDefinition ((roomId, room) # store) itemId =
     (case find (\<lambda>o'. obj_id o' = itemId) (objects room) of
        Some obj \<Rightarrow> Some obj
      | None \<Rightarrow> findDefinition store itemId)"

definition handleUnequip :: "GameEngine \<Rightarrow> GameSession \<Rightarrow> ParsedCommand \<Rightarrow> outcome" where
  "handleUnequip engine session command =
     (case truthyNoun command of
        None \<Rightarrow> (engine, session, reply False ''Unequip what?'')
      | Some n \<Rightarrow>
          (case find (\<lambda>(slot, itemId). itemId \<noteq> [] \<and> matchesEquipped engine itemId n)
                  (equippedItems (player session)) of
             None \<Rightarrow>
               (engine, session, reply False (''You don't have \"'' @ n @ ''\" equipped.''))
           | Some (foundSlot, equippedItemId) \<Rightarrow>
               (case findDefinition (rooms engine) equippedItemId of
                  None \<Rightarrow> (engine, session, reply False ''Error: Could not find item data.'')
                | Some obj \<Rightarrow>
                    (let carried = inventory (player session) @
                           [\<lparr>item_id = obj_id obj, item_name = obj_name obj,
                             item_description = obj_description obj, quantity = 1,
                             equippable = True, item_equipmentSlot = obj_equipmentSlot obj,
                             usable = True, weight = 1\<rparr>];
                         worn = AList.delete foundSlot (equippedItems (player session))
                     in (engine,
                         session\<lparr>player := (player session)
                           \<lparr>inventory := carried, equippedItems := worn\<rparr>\<rparr>,
                         (reply True (''You unequip the '' @ obj_name obj @ ''.''))
                           \<lparr>changes := Some (noChanges\<lparr>sc_inventory := Some carried,
                              sc_equippedItems := Some worn\<rparr>)\<rparr>)))))"

definition resetRoom :: "Room \<Rightarrow> Room" where
  "resetRoom room =
     room\<lparr>objects := map (\<lambda>obj. obj\<lparr>taken := False\<rparr>) (objects room),
          state := AList.update ''visited'' False (state room)\<rparr>"

definition handleRestart :: "GameEngine \<Rightarrow> GameSession \<Rightarrow> ParsedCommand \<Rightarrow> outcome" where
  "handleRestart engine session command =
     (let fresh = createNewPlayer engine (player_name (player session)) ''ROOM_001'' in
      (engine\<lparr>rooms := map (\<lambda>(roomId, room). (roomId, resetRoom room)) (rooms engine)\<rparr>,
       session\<lparr>player := fresh\<rparr>,
       (reply True ''Game restarted. You awaken once again in the cryogenic chamber...'')
         \<lparr>changes := Some (noChanges\<lparr>sc_inventory := Some (inventory fresh),
            sc_location := Some ''ROOM_001'', sc_visitedRooms := Some []\<rparr>)\<rparr>))"

subsection \<open>The command router\<close>

text \<open>
  \<^verbatim>\<open>processCommand\<close>. An exception of the parser leaves the call before anything is
  changed.
\<close>

definition dispatch :: "GameEngine \<Rightarrow> GameSession \<Rightarrow> ParsedCommand \<Rightarrow> outcome" where
  "dispatch engine session command =
     (let v = verb command in
      if v = ''look'' then handleLook engine session command
      else if v = ''go'' then handleGo engine session command
      else if v = ''take'' then handleTake engine session command
      else if v = ''drop'' then handleDrop engine session command
      else if v = ''examine'' then handleExamine engine session command
      else if v = ''inventory'' then handleInventory engine session command
      else if v = ''use'' then handleUse engine session command
      else if v = ''turn'' then handleTurn engine session command
      else if v = ''light'' then handleLight engine session command
      else if v = ''extinguish'' then handleExtinguish engine session command
      else if v = ''open'' then handleOpen engine session command
      else if v = ''close'' then handleClose engine session command
      else if v = ''attack'' then handleAttack engine session command
      else if v = ''cast'' then handleCast engine session command
      else if v = ''rest'' then handleRest engine session command
      else if v = ''help'' then handleHelp engine session command
      else if v = ''restart'' then handleRestart engine session command
      else if v = ''equip'' then handleEquip engine session command
      else if v = ''unequip'' then handleUnequip engine session command
      else (engine, session, reply False (''I don't know how to \"'' @ v @ ''\".'')))"

definition processCommand :: "GameEngine \<Rightarrow> GameSession \<Rightarrow> string \<Rightarrow> js_error + outcome" where
  "processCommand engine session input =
     (case parse input of
        Inl e \<Rightarrow> Inl e
      | Inr command \<Rightarrow>
          if \<not> valid command then
            Inr (engine, session,
                 reply False
                   (case errorMessage command of
                      None \<Rightarrow> ''I don't understand that command.''
                    | Some m \<Rightarrow> if m \<noteq> [] then m else ''I don't understand that command.''))
          else Inr (dispatch engine session command))"

text \<open>
  Commands of one session, run one after the other: a command runs to completion
  before the next one of the session is taken. An exception ends the run.
\<close>

fun runCommands ::
  "GameEngine \<Rightarrow> GameSession \<Rightarrow> string list \<Rightarrow> js_error + (GameEngine \<times> GameSession)" where
  "runCommands engine session [] = Inr (engine, session)"
| "runCommands engine session (input # inputs) =
     (case processCommand engine session input of
        Inl e \<Rightarrow> Inl e
      | Inr (engine', session', result) \<Rightarrow> runCommands engine' session' inputs)"

text \<open>The store as \<^verbatim>\<open>loadRooms\<close> fills it: every room under its own id.\<close>

definition storeKeyed :: "GameEngine \<Rightarrow> bool" where
  "storeKeyed engine = list_all (\<lambda>(roomId, room). room_id (identity room) = roomId) (rooms engine)"

text \<open>The object at a position of a room of the store.\<close>

definition objectAt :: "GameEngine \<Rightarrow> string \<Rightarrow> nat \<Rightarrow> RoomObject option" where
  "objectAt engine roomId i =
     (case getRoom engine roomId of
        None \<Rightarrow> None
      | Some room \<Rightarrow> if i < length (objects room) then Some (objects room ! i) else None)"

text \<open>An input whose command is not routed to the restart handler.\<close>

definition noRestart :: "string \<Rightarrow> bool" where
  "noRestart input = (case parse input of Inl e \<Rightarrow> True | Inr command \<Rightarrow> verb command \<noteq> ''restart'')"

text \<open>
  The store with the initial text of every room replaced, by a text chosen from
  the key of the room: what a command does not read, it returns the same for
  every such replacement.
\<close>

definition retitle :: "(string \<Rightarrow> string) \<Rightarrow> string \<Rightarrow> Room \<Rightarrow> Room" where
  "retitle f roomId room = room\<lparr>descriptions := (descriptions room)\<lparr>initial := f roomId\<rparr>\<rparr>"

definition withInitial :: "(string \<Rightarrow> string) \<Rightarrow> GameEngine \<Rightarrow> GameEngine" where
  "withInitial f engine =
     engine\<lparr>rooms := map (\<lambda>(roomId, room). (roomId, retitle f roomId room)) (rooms engine)\<rparr>"

subsection \<open>The connect handler of the transport\<close>

text \<open>
  \<^verbatim>\<open>WebSocketServer.handleConnect\<close>, as far as the session and the text it sends
  are concerned. \<open>savedState\<close> is the player that \<^verbatim>\<open>JSON.parse\<close> returns from
  the saved state of the message, \<open>None\<close> when the message carries none or parsing
  throws. The text is \<open>None\<close> when nothing is sent. The handler calls
  \<^verbatim>\<open>getRoomDescription\<close> with two arguments, so \<open>verbose\<close> is false.
\<close>

definition handleConnect ::
  "GameEngine \<Rightarrow> GameSession \<Rightarrow> PlayerState option \<Rightarrow> GameSession \<times> string option" where
  "handleConnect engine session savedState =
     (let session = (case savedState of
                       Some savedPlayer \<Rightarrow> session\<lparr>player := savedPlayer\<rparr>
                     | None \<Rightarrow> session)
      in if player_name (player session) = ''Unknown'' then
           (session, Some ''Welcome to Shadow Chronicles.\<newline>\<newline>What is your name, traveler?'')
         else
           (case getCurrentRoom engine session of
              None \<Rightarrow> (session, None)
            | Some room \<Rightarrow>
                (session,
                 Some (''Welcome back, '' @ player_name (player session) @ ''.\<newline>\<newline>''
                       @ getRoomDescription room (player session) False))))"

section \<open>An example world\<close>

text \<open>
  A small world on which the theorems below are run: a lit start room with three
  objects to take and a terminal that teaches a skill, a lit room with a hostile
  NPC, a dark room, a lit room whose dynamic variant is active, and an exit that
  leads to a room which is not loaded.
\<close>

definition exampleObject :: "string \<Rightarrow> string \<Rightarrow> EquipmentSlot option \<Rightarrow> RoomObject" where
  "exampleObject i n slot =
     \<lparr>obj_id = i, obj_name = n, synonyms = None, obj_description = ''An ordinary '' @ n @ ''.'',
      initialLocation = InRoom, visibility = Always, requiresLight = False, takeable = True,
      taken = False, interactable = True, examineText = [], obj_equipmentSlot = slot,
      stateChanges = None\<rparr>"

definition exampleTerminal :: RoomObject where
  "exampleTerminal =
     (exampleObject ''terminal'' ''terminal'' None)
       \<lparr>takeable := False, examineText := ''The archive floods your mind.'',
        stateChanges := Some [(''ability_learned'', ''telekinesis'')]\<rparr>"

definition exampleExit :: "string \<Rightarrow> RoomExit" where
  "exampleExit dest =
     \<lparr>exit_to = dest, visible = True, oneWay = False, requires = None,
      blockedMessage = None, travelText = []\<rparr>"

definition exampleRoom ::
  "string \<Rightarrow> bool \<Rightarrow> (string \<times> RoomExit) list \<Rightarrow> RoomObject list \<Rightarrow> RoomNPC list \<Rightarrow> Room" where
  "exampleRoom i lit es os ns =
     \<lparr>identity = \<lparr>room_id = i, canonicalName = i, aliases = [], region = ''bunker'',
                   zone = ''station''\<rparr>,
      descriptions = \<lparr>initial = ''You wake in '' @ i @ ''.'',
                       long = ''A long look at '' @ i @ ''.'',
                       short = i, desc_visited = ''You are back in '' @ i @ ''.'',
                       dark = ''It is pitch dark.'', dynamicVariants = []\<rparr>,
      lighting = \<lparr>isLit = lit, lightSourcesAllowed = True,
                   darknessBehavior = \<lparr>grueEnabled = False, suppressExits = True,
                                        suppressObjects = True\<rparr>\<rparr>,
      exits = es, objects = os, npcs = ns, state = [(''visited'', False)]\<rparr>"

definition exampleGhoul :: RoomNPC where
  "exampleGhoul =
     \<lparr>npc_id = ''ghoul'', npc_name = ''Ghoul'', npc_description = ''A ghoul crouches here.'',
      hostile = True, spawnConditions = [], despawnConditions = [], behavior = ''aggressive'',
      dialogue = None\<rparr>"

definition floodedRoom :: Room where
  "floodedRoom =
     (exampleRoom ''ROOM_004'' True [(''east'', exampleExit ''ROOM_001'')] [] [])
       \<lparr>descriptions :=
          (descriptions (exampleRoom ''ROOM_004'' True [] [] []))
            \<lparr>dynamicVariants := [(''flooded'', ''Black water fills the hall.'')]\<rparr>,
        state := [(''visited'', True), (''flooded'', True)]\<rparr>"

definition ghoulRoom :: Room where
  "ghoulRoom =
     exampleRoom ''ROOM_002'' True [(''south'', exampleExit ''ROOM_001'')] [] [exampleGhoul]"

definition darkRoom :: Room where
  "darkRoom =
     exampleRoom ''ROOM_003'' False [(''up'', exampleExit ''ROOM_001'')]
       [exampleObject ''coin'' ''coin'' None] [exampleGhoul]"

definition exampleEngine :: GameEngine where
  "exampleEngine =
     loadRooms \<lparr>rooms = [], config = DEFAULT_CONFIG, worldState = [(''power_on'', True)]\<rparr>
       [exampleRoom ''ROOM_001'' True
          [(''north'', exampleExit ''ROOM_002''), (''east'', exampleExit ''ROOM_404''),
           (''down'', exampleExit ''ROOM_003''), (''west'', exampleExit ''ROOM_004'')]
          [exampleObject ''torch'' ''torch'' (Some light_source),
           exampleObject ''lantern'' ''lantern'' (Some light_source),
           exampleObject ''rusty_key'' ''rusty key'' None,
           exampleTerminal] [],
        ghoulRoom,
        darkRoom,
        floodedRoom]"

definition exampleSession :: GameSession where
  "exampleSession =
     \<lparr>session_id = ''s1'', player = createNewPlayer exampleEngine ''Ada'' ''ROOM_001'',
      connected = True, lastActivity = 0, inCombat = False, currentEnemy = None\<rparr>"

definition usedEngine :: GameEngine where
  "usedEngine =
     exampleEngine\<lparr>rooms :=
       map (\<lambda>(roomId, room).
              (roomId, room\<lparr>objects := map (\<lambda>obj. obj\<lparr>taken := True\<rparr>) (objects room),
                            state := [(''visited'', True), (''telekinesis'', True)]\<rparr>))
         (rooms exampleEngine)\<rparr>"

definition usedSession :: GameSession where
  "usedSession =
     exampleSession\<lparr>player := (player exampleSession)
       \<lparr>location := ''ROOM_004'', hp := 40, mp := 5, level := 3,
        inventory := [\<lparr>item_id = ''rusty_key'', item_name = ''rusty key'',
                       item_description = ''An ordinary rusty key.'', quantity = 1,
                       equippable = False, item_equipmentSlot = None, usable = True,
                       weight = 1\<rparr>],
        equippedItems := [(light_source, ''torch'')],
        skills := [''telekinesis''],
        visitedRooms := [Some ''ROOM_001'', Some ''ROOM_004''],
        flags := [(''torch_on'', True)]\<rparr>,
       inCombat := True, currentEnemy := Some ''ghoul''\<rparr>"

definition restartCommand :: ParsedCommand where
  "restartCommand =
     \<lparr>verb = ''restart'', noun = None, preposition = None, indirectObject = None,
      raw = ''restart'', valid = True, errorMessage = None\<rparr>"

definition goNorth :: ParsedCommand where
  "goNorth =
     \<lparr>verb = ''go'', noun = Some ''north'', preposition = None, indirectObject = None,
      raw = ''n'', valid = True, errorMessage = None\<rparr>"

definition goWest :: ParsedCommand where
  "goWest =
     \<lparr>verb = ''go'', noun = Some ''west'', preposition = None, indirectObject = None,
      raw = ''w'', valid = True, errorMessage = None\<rparr>"

definition takeTorch :: ParsedCommand where
  "takeTorch =
     \<lparr>verb = ''take'', noun = Some ''torch'', preposition = None, indirectObject = None,
      raw = ''take torch'', valid = True, errorMessage = None\<rparr>"

definition lookAround :: ParsedCommand where
  "lookAround =
     \<lparr>verb = ''look'', noun = None, preposition = None, indirectObject = None,
      raw = ''look'', valid = True, errorMessage = None\<rparr>"

definition dropTorch :: ParsedCommand where
  "dropTorch =
     \<lparr>verb = ''drop'', noun = Some ''torch'', preposition = None, indirectObject = None,
      raw = ''drop torch'', valid = True, errorMessage = None\<rparr>"

text \<open>
  A second world of two lit rooms: the visited text of the room north of the
  start room contains its initial text.
\<close>

definition echoRoom :: Room where
  "echoRoom =
     (exampleRoom ''ROOM_005'' True [(''south'', exampleExit ''ROOM_001'')] [] [])
       \<lparr>descriptions :=
          (descriptions (exampleRoom ''ROOM_005'' True [] [] []))
            \<lparr>initial := ''A bare cell.'',
             desc_visited := ''A bare cell. Nothing has changed.''\<rparr>\<rparr>"

definition echoEngine :: GameEngine where
  "echoEngine =
     loadRooms \<lparr>rooms = [], config = DEFAULT_CONFIG, worldState = []\<rparr>
       [exampleRoom ''ROOM_001'' True [(''north'', exampleExit ''ROOM_005'')] [] [],
        echoRoom]"

definition echoSession :: GameSession where
  "echoSession =
     \<lparr>session_id = ''s2'', player = createNewPlayer echoEngine ''Ada'' ''ROOM_001'',
      connected = True, lastActivity = 0, inCombat = False, currentEnemy = None\<rparr>"

section \<open>Properties of the parser\<close>

lemma splitWhiteSpace_Nil: "splitWhiteSpace [] = [[]]"
  by (simp add: splitWhiteSpace.simps [of "[]"])

lemma tokenize_Nil: "tokenize [] = []"
  by (simp add: tokenize_def splitWhiteSpace_Nil)

lemma tokenize_nonempty: "t \<in> set (tokenize s) \<Longrightarrow> t \<noteq> []"
  by (auto simp: tokenize_def)

lemma joinSpace_nonempty: "ts \<noteq> [] \<Longrightarrow> \<forall>t\<in>set ts. t \<noteq> [] \<Longrightarrow> joinWith sep ts \<noteq> []"
  by (induction sep ts rule: joinWith.induct) auto

lemma VERB_SYNONYMS_values: "list_all (\<lambda>(k, v). v \<noteq> []) VERB_SYNONYMS"
  by (simp add: VERB_SYNONYMS_def)

lemma canonical_nonempty: "map_of VERB_SYNONYMS k = Some v \<Longrightarrow> v \<noteq> []"
  using VERB_SYNONYMS_values by (auto dest!: map_of_SomeD simp: list_all_iff)

lemma findPreposition_first:
  "findPreposition ts i =
     (if dropWhile (\<lambda>t. t \<notin> set PREPOSITIONS) (drop i ts) = [] then None
      else Some (i + length (takeWhile (\<lambda>t. t \<notin> set PREPOSITIONS) (drop i ts)),
                 hd (dropWhile (\<lambda>t. t \<notin> set PREPOSITIONS) (drop i ts))))"
proof (induction ts i rule: findPreposition.induct)
  case (1 ts i)
  show ?case
  proof (cases "i < length ts")
    case False
    then show ?thesis by (simp add: findPreposition.simps [of ts i])
  next
    case True
    then have d: "drop i ts = ts ! i # drop (Suc i) ts" by (simp add: Cons_nth_drop_Suc)
    show ?thesis
    proof (cases "ts ! i \<in> set PREPOSITIONS")
      case True
      with \<open>i < length ts\<close> d show ?thesis by (simp add: findPreposition.simps [of ts i])
    next
      case False
      have step: "findPreposition ts i = findPreposition ts (Suc i)"
        using False \<open>i < length ts\<close> by (simp add: findPreposition.simps [of ts i])
      show ?thesis
        unfolding step d using "1.IH" False \<open>i < length ts\<close> by simp
    qed
  qed
qed

text \<open>
  Claim C7. Let the first token of an input be a key of the synonym table whose
  canonical verb is not a direction shortcut, and let \<open>objectTokens\<close>, the
  tokens after it with the determiners removed, be non-empty. The parser splits
  at the first token that is a preposition, scanning from the left: when there is
  none, all tokens join into the noun; when it is the very first token, it is
  recorded as the preposition, the tokens after it form the noun (none, if
  nothing follows) and there is no indirect object; when it comes later, the
  tokens before it form the noun and the tokens after it the indirect object
  (none, if nothing follows). Tokens after the first preposition are never
  searched: a second preposition stays in the text of the part it falls in.
\<close>

theorem parse_splits_at_first_preposition:
  assumes toks: "tokenize (trim (toLowerCase input)) = firstToken # remaining"
    and syn: "map_of VERB_SYNONYMS firstToken = Some canonicalVerb"
    and nogo: "\<not> startsWith canonicalVerb ''go ''"
    and objs: "objectTokens = filter (\<lambda>t. t \<notin> set ARTICLES) remaining"
    and ne: "objectTokens \<noteq> []"
    and before: "before = takeWhile (\<lambda>t. t \<notin> set PREPOSITIONS) objectTokens"
    and rest: "rest = dropWhile (\<lambda>t. t \<notin> set PREPOSITIONS) objectTokens"
  shows "parse input =
     Inr \<lparr>verb = canonicalVerb,
          noun = (if rest = [] then Some (joinSpace objectTokens)
                  else if before = [] then orUndefined (joinSpace (tl rest))
                  else Some (joinSpace before)),
          preposition = (if rest = [] then None else Some (hd rest)),
          indirectObject = (if rest = [] \<or> before = [] then None
                            else orUndefined (joinSpace (tl rest))),
          raw = input, valid = True, errorMessage = None\<rparr>"
proof -
  have norm: "trim (toLowerCase input) \<noteq> []"
    using toks tokenize_Nil by auto
  have cv: "canonicalVerb \<noteq> []" using syn by (rule canonical_nonempty)
  have own: "getProperty VERB_SYNONYMS firstToken = Own canonicalVerb"
    using syn by (simp add: getProperty_def)
  have rem: "remaining \<noteq> []" using objs ne by auto
  have tne: "\<forall>t\<in>set objectTokens. t \<noteq> []"
  proof
    fix t assume "t \<in> set objectTokens"
    then have "t \<in> set (tokenize (trim (toLowerCase input)))" using objs toks by auto
    then show "t \<noteq> []" by (rule tokenize_nonempty)
  qed
  have split: "objectTokens = before @ rest" using before rest by simp
  have fp: "findPreposition objectTokens 0 =
      (if rest = [] then None else Some (length before, hd rest))"
    using before rest by (simp add: findPreposition_first)
  have head: "parse input =
      (case findPreposition objectTokens 0 of
         None \<Rightarrow>
           Inr \<lparr>verb = canonicalVerb, noun = orUndefined (joinSpace objectTokens),
                preposition = None, indirectObject = None,
                raw = input, valid = True, errorMessage = None\<rparr>
       | Some (prepositionIndex, prep) \<Rightarrow>
           if prepositionIndex > 0 then
             Inr \<lparr>verb = canonicalVerb,
                  noun = orUndefined (joinSpace (take prepositionIndex objectTokens)),
                  preposition = Some prep,
                  indirectObject =
                    orUndefined (joinSpace (drop (prepositionIndex + 1) objectTokens)),
                  raw = input, valid = True, errorMessage = None\<rparr>
           else
             Inr \<lparr>verb = canonicalVerb,
                  noun = orUndefined (joinSpace (drop 1 objectTokens)),
                  preposition = Some (objectTokens ! 0), indirectObject = None,
                  raw = input, valid = True, errorMessage = None\<rparr>)"
    using norm toks own nogo cv rem ne unfolding objs by (simp add: parse_def Let_def)
  show ?thesis
  proof (cases rest)
    case Nil
    then have "joinSpace objectTokens \<noteq> []" using ne tne by (simp add: joinSpace_nonempty)
    with Nil head fp show ?thesis by (simp add: orUndefined_def)
  next
    case (Cons p ps)
    show ?thesis
    proof (cases "before = []")
      case True
      with Cons head fp split show ?thesis by simp
    next
      case False
      have "\<forall>t\<in>set before. t \<noteq> []" using tne split by auto
      then have "joinSpace before \<noteq> []" using False by (simp add: joinSpace_nonempty)
      with False Cons head fp split show ?thesis by (simp add: orUndefined_def)
    qed
  qed
qed

theorem parse_splits_at_first_preposition_witness:
  "parse ''Put the key in box on table'' =
     Inr \<lparr>verb = ''put'', noun = Some ''key'', preposition = Some ''in'',
          indirectObject = Some ''box on table'', raw = ''Put the key in box on table'',
          valid = True, errorMessage = None\<rparr>"
proof -
  have toks: "tokenize (trim (toLowerCase ''Put the key in box on table'')) =
      ''put'' # [''the'', ''key'', ''in'', ''box'', ''on'', ''table'']"
    by code_simp
  have syn: "map_of VERB_SYNONYMS ''put'' = Some ''put''"
    by (simp add: VERB_SYNONYMS_def)
  have nogo: "\<not> startsWith ''put'' ''go ''"
    by (simp add: startsWith_def)
  have objs: "[''key'', ''in'', ''box'', ''on'', ''table''] =
      filter (\<lambda>t. t \<notin> set ARTICLES) [''the'', ''key'', ''in'', ''box'', ''on'', ''table'']"
    by (simp add: ARTICLES_def)
  have ne: "[''key'', ''in'', ''box'', ''on'', ''table''] \<noteq> ([] :: string list)"
    by simp
  have before: "[''key''] =
      takeWhile (\<lambda>t. t \<notin> set PREPOSITIONS) [''key'', ''in'', ''box'', ''on'', ''table'']"
    by (simp add: PREPOSITIONS_def)
  have rest: "[''in'', ''box'', ''on'', ''table''] =
      dropWhile (\<lambda>t. t \<notin> set PREPOSITIONS) [''key'', ''in'', ''box'', ''on'', ''table'']"
    by (simp add: PREPOSITIONS_def)
  show ?thesis
    using parse_splits_at_first_preposition [OF toks syn nogo objs ne before rest]
    by (simp add: orUndefined_def)
qed

lemma parse_unknown_first_token:
  assumes "tokenize (trim (toLowerCase input)) = firstToken # remaining"
    and "getProperty VERB_SYNONYMS firstToken = Undefined"
  shows "parse input =
     Inr \<lparr>verb = firstToken, noun = None, preposition = None, indirectObject = None,
          raw = input, valid = False,
          errorMessage = Some (''I don't know how to \"'' @ firstToken @ ''\".'')\<rparr>"
proof -
  have "trim (toLowerCase input) \<noteq> []"
    using assms(1) tokenize_Nil by auto
  with assms show ?thesis
    by (simp add: parse_def)
qed

lemma parse_inherited_first_token:
  assumes "tokenize (trim (toLowerCase input)) = firstToken # remaining"
    and "getProperty VERB_SYNONYMS firstToken = Inherited"
  shows "parse input = Inl TypeError"
proof -
  have "trim (toLowerCase input) \<noteq> []"
    using assms(1) tokenize_Nil by auto
  with assms show ?thesis
    by (simp add: parse_def)
qed

lemma getProperty_cases:
  "getProperty obj key = Undefined \<longleftrightarrow> map_of obj key = None \<and> key \<notin> set Object_prototype_keys"
  "getProperty obj key = Inherited \<longleftrightarrow> map_of obj key = None \<and> key \<in> set Object_prototype_keys"
  "getProperty obj key = Own v \<longleftrightarrow> map_of obj key = Some v"
  by (auto simp: getProperty_def split: option.splits)

lemma processCommand_throws:
  "parse input = Inl e \<Longrightarrow> processCommand engine session input = Inl e"
  by (simp add: processCommand_def)

lemma VERB_SYNONYMS_keys:
  "list_all (\<lambda>(k, v). k \<noteq> [] \<and> list_all (\<lambda>c. \<not> isWhiteSpace c \<and> toLowerChar c = c) k)
     VERB_SYNONYMS"
  by code_simp

lemma VERB_SYNONYMS_directions:
  "list_all (\<lambda>(k, v). \<not> startsWith v ''go '' \<or>
       (case splitChar CHR '' '' v of _ # direction # _ \<Rightarrow> Some direction | _ \<Rightarrow> None) =
         Some (drop 3 v))
     VERB_SYNONYMS"
  by code_simp

lemma foo_facts:
  "toLowerCase '' foo'' = '' foo''" "\<not> isWhiteSpace CHR ''o''" "isWhiteSpace CHR '' ''"
  "splitWhiteSpace ''foo'' = [''foo'']" "dropWhile isWhiteSpace '' foo'' = ''foo''"
  by code_simp+

lemma tokenize_key_foo:
  assumes ne: "k \<noteq> []" and ok: "\<forall>c \<in> set k. \<not> isWhiteSpace c \<and> toLowerChar c = c"
  shows "tokenize (trim (toLowerCase (k @ '' foo''))) = [k, ''foo'']"
proof -
  have lower: "toLowerCase (k @ '' foo'') = k @ '' foo''"
  proof -
    have "map toLowerChar k = k" using ok by (simp add: map_idI)
    then show ?thesis using foo_facts(1) by (simp add: toLowerCase_def)
  qed
  obtain c cs where k: "k = c # cs" using ne by (cases k) auto
  with ok have c: "\<not> isWhiteSpace c" by simp
  have front: "dropWhile isWhiteSpace (k @ '' foo'') = k @ '' foo''"
    using k c by simp
  have tail: "dropWhile isWhiteSpace (rev (k @ '' foo'')) = rev (k @ '' foo'')"
    using foo_facts(2) by simp
  have trimmed: "trim (k @ '' foo'') = k @ '' foo''"
    unfolding trim_def front tail by simp
  have piece: "takeWhile (\<lambda>c. \<not> isWhiteSpace c) (k @ '' foo'') = k"
    using ok foo_facts(3) by (simp add: takeWhile_append2)
  have rest: "dropWhile (\<lambda>c. \<not> isWhiteSpace c) (k @ '' foo'') = '' foo''"
    using ok foo_facts(3) by (simp add: dropWhile_append2)
  have "splitWhiteSpace (k @ '' foo'') = k # splitWhiteSpace (dropWhile isWhiteSpace '' foo'')"
    by (subst splitWhiteSpace.simps) (simp only: piece rest Let_def list.distinct if_False)
  then have "splitWhiteSpace (k @ '' foo'') = k # splitWhiteSpace ''foo''"
    by (simp only: foo_facts(5))
  then have "splitWhiteSpace (k @ '' foo'') = [k, ''foo'']"
    by (simp add: foo_facts(4))
  then show ?thesis
    unfolding lower trimmed using ne by (simp add: tokenize_def)
qed

lemma parse_synonym_key:
  assumes key: "k \<in> set (map fst VERB_SYNONYMS)"
  shows "\<exists>v c. map_of VERB_SYNONYMS k = Some v \<and> parse (k @ '' foo'') = Inr c \<and> valid c \<and>
      verb c = (if startsWith v ''go '' then ''go'' else v) \<and>
      noun c = Some (if startsWith v ''go '' then drop 3 v else ''foo'')"
proof -
  from key obtain v where v: "map_of VERB_SYNONYMS k = Some v"
    by (metis map_of_eq_None_iff not_None_eq set_map)
  then have mem: "(k, v) \<in> set VERB_SYNONYMS"
    by (rule map_of_SomeD)
  with VERB_SYNONYMS_keys have ne: "k \<noteq> []"
    and ok: "\<forall>c \<in> set k. \<not> isWhiteSpace c \<and> toLowerChar c = c"
    by (auto simp: list_all_iff)
  have toks: "tokenize (trim (toLowerCase (k @ '' foo''))) = [k, ''foo'']"
    using ne ok by (rule tokenize_key_foo)
  have norm: "trim (toLowerCase (k @ '' foo'')) \<noteq> []"
    using toks tokenize_Nil by auto
  have own: "getProperty VERB_SYNONYMS k = Own v"
    using v by (simp add: getProperty_def)
  have vne: "v \<noteq> []"
    using v by (rule canonical_nonempty)
  show ?thesis
  proof (cases "startsWith v ''go ''")
    case True
    with mem VERB_SYNONYMS_directions have
      "(case splitChar CHR '' '' v of _ # direction # _ \<Rightarrow> Some direction | _ \<Rightarrow> None) =
         Some (drop 3 v)"
      by (auto simp: list_all_iff)
    with True norm toks own vne v show ?thesis
      by (simp add: parse_def)
  next
    case False
    have fp: "findPreposition [''foo''] 0 = None"
      by (simp add: findPreposition_first PREPOSITIONS_def)
    from False norm toks own vne v fp show ?thesis
      by (simp add: parse_def ARTICLES_def orUndefined_def)
  qed
qed

lemma synonyms_agree:
  assumes "k1 \<in> set (map fst VERB_SYNONYMS)" and "k2 \<in> set (map fst VERB_SYNONYMS)"
    and "map_of VERB_SYNONYMS k1 = map_of VERB_SYNONYMS k2"
  shows "\<exists>c1 c2. parse (k1 @ '' foo'') = Inr c1 \<and> parse (k2 @ '' foo'') = Inr c2 \<and>
      valid c1 \<and> valid c2 \<and> verb c1 = verb c2"
  using parse_synonym_key [OF assms(1)] parse_synonym_key [OF assms(2)] assms(3)
  by auto

text \<open>
  Claim C8, at an input where the code departs from it. The first token
  \<open>constructor\<close> is not a key of the synonym table, and the table, an object
  literal, inherits a property of that name: the value read is truthy and is no
  string, the call of \<^verbatim>\<open>startsWith\<close> on it throws, and \<open>parse\<close> returns no result,
  valid or invalid. So does \<open>processCommand\<close>, which calls it unguarded. The
  lemmas above give the rest of the claim: every key of the table followed by
  \<open>foo\<close> parses to a valid command with the canonical verb of the key, and a
  first token that is neither a key nor an inherited name gives the invalid
  result that names it.
\<close>

theorem parse_inherited_key_throws:
  "''constructor'' \<notin> set (map fst VERB_SYNONYMS) \<and>
   parse ''constructor'' = Inl TypeError \<and>
   parse ''__proto__ foo'' = Inl TypeError \<and>
   processCommand exampleEngine exampleSession ''constructor'' = Inl TypeError"
  by code_simp

section \<open>Light and room descriptions\<close>

lemma on_flag_not_inherited: "lightId @ ''_on'' \<notin> set Object_prototype_keys"
proof
  assume "lightId @ ''_on'' \<in> set Object_prototype_keys"
  then have "last (lightId @ ''_on'') \<in> last ` set Object_prototype_keys"
    by (rule imageI)
  then show False
    by (simp add: Object_prototype_keys_def)
qed

lemma truthyFlag_on:
  "truthyFlag fs (lightId @ ''_on'') = (map_of fs (lightId @ ''_on'') = Some True)"
  using on_flag_not_inherited [of lightId]
  by (auto simp: truthyFlag_def getProperty_def split: option.splits)

text \<open>
  Claim C5. \<open>hasLight\<close> holds exactly when the room is lit by itself or the
  player's \<open>light_source\<close> slot holds a (non-empty) item id whose flag
  \<open>id_on\<close> is set in the player's flags. When it does not hold,
  \<open>getRoomDescription\<close> returns the dark text of the room and nothing else,
  whatever objects, exits and NPCs the room has and whether the look is verbose.
\<close>

theorem dark_room_description:
  "hasLight room p =
     (isLit (lighting room) \<or>
      (\<exists>lightId. map_of (equippedItems p) light_source = Some lightId \<and> lightId \<noteq> [] \<and>
         map_of (flags p) (lightId @ ''_on'') = Some True)) \<and>
   (\<not> hasLight room p \<longrightarrow> getRoomDescription room p verbose = dark (descriptions room))"
proof
  show "hasLight room p =
     (isLit (lighting room) \<or>
      (\<exists>lightId. map_of (equippedItems p) light_source = Some lightId \<and> lightId \<noteq> [] \<and>
         map_of (flags p) (lightId @ ''_on'') = Some True))"
    by (auto simp: hasLight_def truthyFlag_on split: option.splits)
  show "\<not> hasLight room p \<longrightarrow> getRoomDescription room p verbose = dark (descriptions room)"
    by (simp add: getRoomDescription_def)
qed

theorem dark_room_description_witness:
  "\<not> hasLight darkRoom (player exampleSession) \<and>
   objects darkRoom \<noteq> [] \<and> visibleExits darkRoom \<noteq> [] \<and>
   visibleNpcs darkRoom (player exampleSession) \<noteq> [] \<and>
   getRoomDescription darkRoom (player exampleSession) True = ''It is pitch dark.''"
proof -
  have dark: "\<not> hasLight darkRoom (player exampleSession)"
    by code_simp
  have listed: "objects darkRoom \<noteq> [] \<and> visibleExits darkRoom \<noteq> [] \<and>
      visibleNpcs darkRoom (player exampleSession) \<noteq> []"
    by code_simp
  have darkText: "dark (descriptions darkRoom) = ''It is pitch dark.''"
    by code_simp
  from dark_room_description [of darkRoom "player exampleSession" True] dark
  have "getRoomDescription darkRoom (player exampleSession) True = dark (descriptions darkRoom)"
    by blast
  with dark listed darkText show ?thesis by simp
qed

section \<open>Restart\<close>

lemma createNewPlayer_fields:
  "player_name (createNewPlayer engine n r) = n"
  "location (createNewPlayer engine n r) = r"
  "hp (createNewPlayer engine n r) = baseHp (config engine)"
  "maxHp (createNewPlayer engine n r) = baseHp (config engine)"
  "mp (createNewPlayer engine n r) = baseMp (config engine)"
  "maxMp (createNewPlayer engine n r) = baseMp (config engine)"
  "level (createNewPlayer engine n r) = 1"
  "xp (createNewPlayer engine n r) = 0"
  "gold (createNewPlayer engine n r) = 0"
  "stats (createNewPlayer engine n r) = \<lparr>Physical = 10, Mental = 10, Resilience = 10\<rparr>"
  "inventory (createNewPlayer engine n r) = []"
  "equippedItems (createNewPlayer engine n r) = []"
  "skills (createNewPlayer engine n r) = []"
  "flags (createNewPlayer engine n r) = []"
  "visitedRooms (createNewPlayer engine n r) = []"
  by (simp_all add: createNewPlayer_def)

lemma handleRestart_result:
  "handleRestart engine session command =
     (engine\<lparr>rooms := map (\<lambda>(roomId, room). (roomId, resetRoom room)) (rooms engine)\<rparr>,
      session\<lparr>player := createNewPlayer engine (player_name (player session)) ''ROOM_001''\<rparr>,
      (reply True ''Game restarted. You awaken once again in the cryogenic chamber...'')
        \<lparr>changes := Some (noChanges\<lparr>sc_inventory := Some [],
           sc_location := Some ''ROOM_001'', sc_visitedRooms := Some []\<rparr>)\<rparr>)"
  by (simp add: handleRestart_def Let_def createNewPlayer_fields)

lemma resetRoom_none_taken: "\<forall>obj \<in> set (objects (resetRoom room)). \<not> taken obj"
  by (simp add: resetRoom_def)

lemma resetRoom_length: "length (objects (resetRoom room)) = length (objects room)"
  by (simp add: resetRoom_def)

lemma resetRoom_visited: "map_of (state (resetRoom room)) ''visited'' = Some False"
  by (simp add: resetRoom_def update_conv')

lemma resetRoom_other_flags:
  "key \<noteq> ''visited'' \<Longrightarrow> map_of (state (resetRoom room)) key = map_of (state room) key"
  by (simp add: resetRoom_def update_conv')

lemma resetRoom_frame:
  "identity (resetRoom room) = identity room"
  "descriptions (resetRoom room) = descriptions room"
  "lighting (resetRoom room) = lighting room"
  "exits (resetRoom room) = exits room"
  "npcs (resetRoom room) = npcs room"
  "objects (resetRoom room) = map (\<lambda>obj. obj\<lparr>taken := False\<rparr>) (objects room)"
  by (simp_all add: resetRoom_def)

lemma reset_store_keys:
  "map fst (map (\<lambda>(roomId, room). (roomId, resetRoom room)) store) = map fst store"
  by (induction store) auto

lemma reset_store_nth:
  "i < length store \<Longrightarrow>
   map (\<lambda>(roomId, room). (roomId, resetRoom room)) store ! i =
     (fst (store ! i), resetRoom (snd (store ! i)))"
  by (simp add: case_prod_beta)

text \<open>
  Claim C4. The restart handler succeeds and replaces the player of the session
  by \<open>createNewPlayer\<close> for the same name at the start room \<open>ROOM_001\<close>: base
  hp and mp of the configuration, level 1, the three stats at 10, and empty
  inventory, equipment, skills, flags and visited rooms. The store keeps its
  keys, and in every room of it every object has \<open>taken\<close> false and the state
  flag \<open>visited\<close> is false.
\<close>

theorem handleRestart_resets_player_and_rooms:
  "(case handleRestart engine session command of
      (engine', session', result) \<Rightarrow>
        success result \<and>
        player session' = createNewPlayer engine (player_name (player session)) ''ROOM_001'' \<and>
        player_name (player session') = player_name (player session) \<and>
        location (player session') = ''ROOM_001'' \<and>
        hp (player session') = baseHp (config engine) \<and>
        maxHp (player session') = baseHp (config engine) \<and>
        mp (player session') = baseMp (config engine) \<and>
        maxMp (player session') = baseMp (config engine) \<and>
        level (player session') = 1 \<and> xp (player session') = 0 \<and> gold (player session') = 0 \<and>
        stats (player session') = \<lparr>Physical = 10, Mental = 10, Resilience = 10\<rparr> \<and>
        inventory (player session') = [] \<and> equippedItems (player session') = [] \<and>
        skills (player session') = [] \<and> flags (player session') = [] \<and>
        visitedRooms (player session') = [] \<and>
        map fst (rooms engine') = map fst (rooms engine) \<and>
        (\<forall>i < length (rooms engine).
           (\<forall>obj \<in> set (objects (snd (rooms engine' ! i))). \<not> taken obj) \<and>
           length (objects (snd (rooms engine' ! i))) =
             length (objects (snd (rooms engine ! i))) \<and>
           map_of (state (snd (rooms engine' ! i))) ''visited'' = Some False))"
proof -
  define store' where
    "store' = map (\<lambda>(roomId, room). (roomId, resetRoom room)) (rooms engine)"
  have r: "handleRestart engine session command =
     (engine\<lparr>rooms := store'\<rparr>,
      session\<lparr>player := createNewPlayer engine (player_name (player session)) ''ROOM_001''\<rparr>,
      (reply True ''Game restarted. You awaken once again in the cryogenic chamber...'')
        \<lparr>changes := Some (noChanges\<lparr>sc_inventory := Some [],
           sc_location := Some ''ROOM_001'', sc_visitedRooms := Some []\<rparr>)\<rparr>)"
    unfolding store'_def by (rule handleRestart_result)
  have keys: "map fst store' = map fst (rooms engine)"
    unfolding store'_def by (rule reset_store_keys)
  have each: "\<forall>i < length (rooms engine).
      (\<forall>obj \<in> set (objects (snd (store' ! i))). \<not> taken obj) \<and>
      length (objects (snd (store' ! i))) = length (objects (snd (rooms engine ! i))) \<and>
      map_of (state (snd (store' ! i))) ''visited'' = Some False"
  proof (intro allI impI)
    fix i
    assume "i < length (rooms engine)"
    then have nth: "snd (store' ! i) = resetRoom (snd (rooms engine ! i))"
      unfolding store'_def by (simp add: case_prod_beta)
    show "(\<forall>obj \<in> set (objects (snd (store' ! i))). \<not> taken obj) \<and>
      length (objects (snd (store' ! i))) = length (objects (snd (rooms engine ! i))) \<and>
      map_of (state (snd (store' ! i))) ''visited'' = Some False"
      unfolding nth
      by (intro conjI resetRoom_none_taken resetRoom_length resetRoom_visited)
  qed
  have sel: "rooms (engine\<lparr>rooms := store'\<rparr>) = store'"
    "player (session\<lparr>player := createNewPlayer engine (player_name (player session)) ''ROOM_001''\<rparr>) =
       createNewPlayer engine (player_name (player session)) ''ROOM_001''"
    by simp_all
  have ok: "success ((reply True ''Game restarted. You awaken once again in the cryogenic chamber...'')
        \<lparr>changes := Some (noChanges\<lparr>sc_inventory := Some [],
           sc_location := Some ''ROOM_001'', sc_visitedRooms := Some []\<rparr>)\<rparr>)"
    by (simp add: reply_def)
  show ?thesis
    unfolding r prod.case sel createNewPlayer_fields
    using keys each ok by blast
qed

theorem handleRestart_resets_player_and_rooms_witness:
  "taken (hd (objects (snd (rooms usedEngine ! 0)))) \<and>
   map_of (state (snd (rooms usedEngine ! 0))) ''visited'' = Some True \<and>
   location (player usedSession) = ''ROOM_004'' \<and>
   (case handleRestart usedEngine usedSession restartCommand of
      (engine', session', result) \<Rightarrow>
        location (player session') = ''ROOM_001'' \<and> hp (player session') = 100 \<and>
        level (player session') = 1 \<and> inventory (player session') = [] \<and>
        skills (player session') = [] \<and> visitedRooms (player session') = [] \<and>
        \<not> taken (hd (objects (snd (rooms engine' ! 0)))) \<and>
        map_of (state (snd (rooms engine' ! 0))) ''visited'' = Some False)"
proof -
  obtain engine' session' result where
    r: "handleRestart usedEngine usedSession restartCommand = (engine', session', result)"
    by (cases "handleRestart usedEngine usedSession restartCommand")
  have before: "taken (hd (objects (snd (rooms usedEngine ! 0)))) \<and>
      map_of (state (snd (rooms usedEngine ! 0))) ''visited'' = Some True \<and>
      location (player usedSession) = ''ROOM_004''"
    by code_simp
  have len: "0 < length (rooms usedEngine)"
    by code_simp
  have objs: "objects (snd (rooms usedEngine ! 0)) \<noteq> []"
    by code_simp
  have hp0: "baseHp (config usedEngine) = 100"
    by code_simp
  note main = handleRestart_resets_player_and_rooms [of usedEngine usedSession restartCommand,
      unfolded r prod.case]
  from main len have a: "\<forall>obj \<in> set (objects (snd (rooms engine' ! 0))). \<not> taken obj"
    and b: "length (objects (snd (rooms engine' ! 0))) = length (objects (snd (rooms usedEngine ! 0)))"
    and c: "map_of (state (snd (rooms engine' ! 0))) ''visited'' = Some False"
    by blast+
  from b objs have "objects (snd (rooms engine' ! 0)) \<noteq> []" by auto
  with a have d: "\<not> taken (hd (objects (snd (rooms engine' ! 0))))" by simp
  from main have "hp (player session') = baseHp (config usedEngine)"
    by blast
  with hp0 have e1: "hp (player session') = 100"
    by simp
  from main have e2: "location (player session') = ''ROOM_001'' \<and>
        level (player session') = 1 \<and> inventory (player session') = [] \<and>
        skills (player session') = [] \<and> visitedRooms (player session') = []"
    by blast
  show ?thesis
    unfolding r prod.case using before c d e1 e2 by blast
qed

lemma resetRoom_same_objects:
  "map (\<lambda>obj. obj\<lparr>taken := False\<rparr>) (objects (resetRoom room)) =
     map (\<lambda>obj. obj\<lparr>taken := False\<rparr>) (objects room)"
  by (simp add: resetRoom_def)

lemma resetRoom_truthy_flags:
  "key \<noteq> ''visited'' \<Longrightarrow> truthyFlag (state (resetRoom room)) key = truthyFlag (state room) key"
  by (simp add: truthyFlag_def getProperty_def resetRoom_other_flags)

text \<open>
  Claim C9. Restart changes the player, the \<open>taken\<close> flags and the \<open>visited\<close>
  state flags only: the global flags and the configuration are the same after
  it, the session keeps its combat mark and its other fields, and every room
  keeps its key, identity, descriptions, lighting, exits, NPCs, its objects up
  to \<open>taken\<close>, and the value of every state flag other than \<open>visited\<close>.
\<close>

theorem handleRestart_frame:
  "(case handleRestart engine session command of
      (engine', session', result) \<Rightarrow>
        worldState engine' = worldState engine \<and> config engine' = config engine \<and>
        session_id session' = session_id session \<and> connected session' = connected session \<and>
        lastActivity session' = lastActivity session \<and>
        inCombat session' = inCombat session \<and> currentEnemy session' = currentEnemy session \<and>
        length (rooms engine') = length (rooms engine) \<and>
        (\<forall>i < length (rooms engine).
           fst (rooms engine' ! i) = fst (rooms engine ! i) \<and>
           identity (snd (rooms engine' ! i)) = identity (snd (rooms engine ! i)) \<and>
           descriptions (snd (rooms engine' ! i)) = descriptions (snd (rooms engine ! i)) \<and>
           lighting (snd (rooms engine' ! i)) = lighting (snd (rooms engine ! i)) \<and>
           exits (snd (rooms engine' ! i)) = exits (snd (rooms engine ! i)) \<and>
           npcs (snd (rooms engine' ! i)) = npcs (snd (rooms engine ! i)) \<and>
           map (\<lambda>obj. obj\<lparr>taken := False\<rparr>) (objects (snd (rooms engine' ! i))) =
             map (\<lambda>obj. obj\<lparr>taken := False\<rparr>) (objects (snd (rooms engine ! i))) \<and>
           (\<forall>key. key \<noteq> ''visited'' \<longrightarrow>
              map_of (state (snd (rooms engine' ! i))) key =
                map_of (state (snd (rooms engine ! i))) key \<and>
              truthyFlag (state (snd (rooms engine' ! i))) key =
                truthyFlag (state (snd (rooms engine ! i))) key)))"
proof -
  define store' where
    "store' = map (\<lambda>(roomId, room). (roomId, resetRoom room)) (rooms engine)"
  have r: "handleRestart engine session command =
     (engine\<lparr>rooms := store'\<rparr>,
      session\<lparr>player := createNewPlayer engine (player_name (player session)) ''ROOM_001''\<rparr>,
      (reply True ''Game restarted. You awaken once again in the cryogenic chamber...'')
        \<lparr>changes := Some (noChanges\<lparr>sc_inventory := Some [],
           sc_location := Some ''ROOM_001'', sc_visitedRooms := Some []\<rparr>)\<rparr>)"
    unfolding store'_def by (rule handleRestart_result)
  have len: "length store' = length (rooms engine)"
    unfolding store'_def by simp
  have each: "\<forall>i < length (rooms engine).
           fst (store' ! i) = fst (rooms engine ! i) \<and>
           identity (snd (store' ! i)) = identity (snd (rooms engine ! i)) \<and>
           descriptions (snd (store' ! i)) = descriptions (snd (rooms engine ! i)) \<and>
           lighting (snd (store' ! i)) = lighting (snd (rooms engine ! i)) \<and>
           exits (snd (store' ! i)) = exits (snd (rooms engine ! i)) \<and>
           npcs (snd (store' ! i)) = npcs (snd (rooms engine ! i)) \<and>
           map (\<lambda>obj. obj\<lparr>taken := False\<rparr>) (objects (snd (store' ! i))) =
             map (\<lambda>obj. obj\<lparr>taken := False\<rparr>) (objects (snd (rooms engine ! i))) \<and>
           (\<forall>key. key \<noteq> ''visited'' \<longrightarrow>
              map_of (state (snd (store' ! i))) key = map_of (state (snd (rooms engine ! i))) key \<and>
              truthyFlag (state (snd (store' ! i))) key =
                truthyFlag (state (snd (rooms engine ! i))) key)"
  proof (intro allI impI)
    fix i
    assume i: "i < length (rooms engine)"
    then have nth: "store' ! i = (fst (rooms engine ! i), resetRoom (snd (rooms engine ! i)))"
      unfolding store'_def by (simp add: case_prod_beta)
    show "fst (store' ! i) = fst (rooms engine ! i) \<and>
           identity (snd (store' ! i)) = identity (snd (rooms engine ! i)) \<and>
           descriptions (snd (store' ! i)) = descriptions (snd (rooms engine ! i)) \<and>
           lighting (snd (store' ! i)) = lighting (snd (rooms engine ! i)) \<and>
           exits (snd (store' ! i)) = exits (snd (rooms engine ! i)) \<and>
           npcs (snd (store' ! i)) = npcs (snd (rooms engine ! i)) \<and>
           map (\<lambda>obj. obj\<lparr>taken := False\<rparr>) (objects (snd (store' ! i))) =
             map (\<lambda>obj. obj\<lparr>taken := False\<rparr>) (objects (snd (rooms engine ! i))) \<and>
           (\<forall>key. key \<noteq> ''visited'' \<longrightarrow>
              map_of (state (snd (store' ! i))) key = map_of (state (snd (rooms engine ! i))) key \<and>
              truthyFlag (state (snd (store' ! i))) key =
                truthyFlag (state (snd (rooms engine ! i))) key)"
      unfolding nth fst_conv snd_conv resetRoom_frame(1-5) resetRoom_same_objects
      by (simp add: resetRoom_other_flags resetRoom_truthy_flags)
  qed
  have sel: "worldState (engine\<lparr>rooms := store'\<rparr>) = worldState engine"
    "config (engine\<lparr>rooms := store'\<rparr>) = config engine"
    "rooms (engine\<lparr>rooms := store'\<rparr>) = store'"
    "session_id (session\<lparr>player := p\<rparr>) = session_id session"
    "connected (session\<lparr>player := p\<rparr>) = connected session"
    "lastActivity (session\<lparr>player := p\<rparr>) = lastActivity session"
    "inCombat (session\<lparr>player := p\<rparr>) = inCombat session"
    "currentEnemy (session\<lparr>player := p\<rparr>) = currentEnemy session" for p
    by simp_all
  show ?thesis
    unfolding r prod.case sel by (intro conjI refl len each)
qed

theorem handleRestart_frame_witness:
  "map_of (state (snd (rooms usedEngine ! 0))) ''telekinesis'' = Some True \<and>
   inCombat usedSession \<and>
   (case handleRestart usedEngine usedSession restartCommand of
      (engine', session', result) \<Rightarrow>
        map_of (state (snd (rooms engine' ! 0))) ''telekinesis'' = Some True \<and>
        worldState engine' = [(''power_on'', True)] \<and> inCombat session')"
proof -
  obtain engine' session' result where
    r: "handleRestart usedEngine usedSession restartCommand = (engine', session', result)"
    by (cases "handleRestart usedEngine usedSession restartCommand")
  have before: "map_of (state (snd (rooms usedEngine ! 0))) ''telekinesis'' = Some True \<and>
      inCombat usedSession \<and> worldState usedEngine = [(''power_on'', True)]"
    by code_simp
  have len: "0 < length (rooms usedEngine)"
    by code_simp
  have key: "''telekinesis'' \<noteq> ''visited''"
    by simp
  note main = handleRestart_frame [of usedEngine usedSession restartCommand,
      unfolded r prod.case]
  from main have b: "worldState engine' = worldState usedEngine"
    by (elim conjE)
  from main have c: "inCombat session' = inCombat usedSession"
    by (elim conjE)
  from main have rows: "\<forall>i < length (rooms usedEngine).
           fst (rooms engine' ! i) = fst (rooms usedEngine ! i) \<and>
           identity (snd (rooms engine' ! i)) = identity (snd (rooms usedEngine ! i)) \<and>
           descriptions (snd (rooms engine' ! i)) = descriptions (snd (rooms usedEngine ! i)) \<and>
           lighting (snd (rooms engine' ! i)) = lighting (snd (rooms usedEngine ! i)) \<and>
           exits (snd (rooms engine' ! i)) = exits (snd (rooms usedEngine ! i)) \<and>
           npcs (snd (rooms engine' ! i)) = npcs (snd (rooms usedEngine ! i)) \<and>
           map (\<lambda>obj. obj\<lparr>taken := False\<rparr>) (objects (snd (rooms engine' ! i))) =
             map (\<lambda>obj. obj\<lparr>taken := False\<rparr>) (objects (snd (rooms usedEngine ! i))) \<and>
           (\<forall>key. key \<noteq> ''visited'' \<longrightarrow>
              map_of (state (snd (rooms engine' ! i))) key =
                map_of (state (snd (rooms usedEngine ! i))) key \<and>
              truthyFlag (state (snd (rooms engine' ! i))) key =
                truthyFlag (state (snd (rooms usedEngine ! i))) key)"
    by (elim conjE)
  from rows [rule_format, OF len] have flags0: "\<forall>key. key \<noteq> ''visited'' \<longrightarrow>
              map_of (state (snd (rooms engine' ! 0))) key =
                map_of (state (snd (rooms usedEngine ! 0))) key \<and>
              truthyFlag (state (snd (rooms engine' ! 0))) key =
                truthyFlag (state (snd (rooms usedEngine ! 0))) key"
    by (elim conjE)
  from flags0 [rule_format, OF key]
  have a: "map_of (state (snd (rooms engine' ! 0))) ''telekinesis'' =
      map_of (state (snd (rooms usedEngine ! 0))) ''telekinesis''"
    by (elim conjE)
  show ?thesis
    unfolding r prod.case using before a b c by simp
qed

section \<open>Taking and dropping\<close>

lemma getRoom_storeRoom:
  "getRoom (storeRoom engine k room) k' = (if k' = k then Some room else getRoom engine k')"
  by (simp add: getRoom_def storeRoom_def update_conv')

lemma length_updateFirst: "length (updateFirst p f xs) = length xs"
  by (induction xs) auto

lemma nth_updateFirst_other:
  "i < length xs \<Longrightarrow> \<not> p (xs ! i) \<Longrightarrow> updateFirst p f xs ! i = xs ! i"
proof (induction xs arbitrary: i)
  case Nil
  then show ?case by simp
next
  case (Cons x xs)
  then show ?case by (cases i) auto
qed

lemma find_updateFirst:
  "find p xs = Some x \<Longrightarrow>
   \<exists>i < length xs. xs ! i = x \<and> p x \<and> updateFirst p f xs = xs[i := f x]"
proof (induction xs)
  case Nil
  then show ?case by simp
next
  case (Cons y ys)
  show ?case
  proof (cases "p y")
    case True
    with Cons.prems have "y = x" by simp
    with True show ?thesis by (intro exI [of _ 0]) simp
  next
    case False
    with Cons.prems have "find p ys = Some x" by simp
    from Cons.IH [OF this] obtain i where
      i: "i < length ys" "ys ! i = x" "p x" "updateFirst p f ys = ys[i := f x]" by blast
    with False show ?thesis by (intro exI [of _ "Suc i"]) simp
  qed
qed

lemma handleDrop_engine: "fst (handleDrop engine session command) = engine"
  by (simp add: handleDrop_def Let_def split: option.splits)

lemma handleInventory_engine: "fst (handleInventory engine session command) = engine"
  by (simp add: handleInventory_def Let_def)

lemma handleUse_engine: "fst (handleUse engine session command) = engine"
  by (simp add: handleUse_def split: option.splits)

lemma handleLight_engine: "fst (handleLight engine session command) = engine"
  by (simp add: handleLight_def Let_def split: option.splits)

lemma handleExtinguish_engine: "fst (handleExtinguish engine session command) = engine"
  by (simp add: handleExtinguish_def Let_def split: option.splits)

lemma handleTurn_engine: "fst (handleTurn engine session command) = engine"
  by (simp add: handleTurn_def Let_def handleLight_engine handleExtinguish_engine
      split: option.splits)

lemma handleOpen_engine: "fst (handleOpen engine session command) = engine"
  by (simp add: handleOpen_def split: option.splits)

lemma handleClose_engine: "fst (handleClose engine session command) = engine"
  by (simp add: handleClose_def split: option.splits)

lemma handleAttack_engine: "fst (handleAttack engine session command) = engine"
  by (simp add: handleAttack_def)

lemma handleCast_engine: "fst (handleCast engine session command) = engine"
  by (simp add: handleCast_def split: option.splits)

lemma handleRest_engine: "fst (handleRest engine session command) = engine"
  by (simp add: handleRest_def Let_def)

lemma handleHelp_engine: "fst (handleHelp engine session command) = engine"
  by (simp add: handleHelp_def)

lemma handleEquip_engine: "fst (handleEquip engine session command) = engine"
  by (simp add: handleEquip_def Let_def split: option.splits)

lemma handleUnequip_engine: "fst (handleUnequip engine session command) = engine"
  by (simp add: handleUnequip_def Let_def split: option.splits prod.splits)

lemma handleGo_engine: "fst (handleGo engine session command) = engine"
  by (simp add: handleGo_def Let_def split: option.splits property.splits ExitCheck.splits)

lemma objectAt_storeRoom:
  assumes "getRoom engine loc = Some room"
    and "length (objects room') = length (objects room)"
    and "\<And>j. j < length (objects room) \<Longrightarrow> taken (objects room ! j) \<Longrightarrow>
           objects room' ! j = objects room ! j"
    and "objectAt engine k i = Some obj" and "taken obj"
  shows "objectAt (storeRoom engine loc room') k i = Some obj"
proof (cases "k = loc")
  case False
  with assms(4) show ?thesis by (simp add: objectAt_def getRoom_storeRoom)
next
  case True
  with assms(1,4) have i: "i < length (objects room)" and o: "objects room ! i = obj"
    by (auto simp: objectAt_def split: if_splits)
  with assms(3) [of i] assms(5) have "objects room' ! i = obj" by simp
  with True i assms(2) show ?thesis by (simp add: objectAt_def getRoom_storeRoom)
qed

lemma handleLook_engine:
  "fst (handleLook engine session command) = engine \<or>
   (\<exists>room flags'. getRoom engine (location (player session)) = Some room \<and>
      fst (handleLook engine session command) =
        storeRoom engine (location (player session)) (room\<lparr>state := flags'\<rparr>))"
proof (cases "getCurrentRoom engine session")
  case None
  then show ?thesis by (simp add: handleLook_def)
next
  case (Some room)
  then have r: "getRoom engine (location (player session)) = Some room"
    by (simp add: getCurrentRoom_def getRoom_def)
  show ?thesis
  proof (cases "truthyNoun command")
    case None
    with Some show ?thesis by (simp add: handleLook_def)
  next
    case n: (Some n)
    show ?thesis
    proof (cases "find (\<lambda>o'. matchesObject o' n) (objects room)")
      case None
      with Some n show ?thesis by (simp add: handleLook_def split: option.splits)
    next
      case found: (Some obj)
      show ?thesis
      proof (cases "abilityLearned obj")
        case None
        with Some n found show ?thesis by (simp add: handleLook_def)
      next
        case skill: (Some skillId)
        show ?thesis
        proof (cases "truthyFlag (state room) skillId")
          case True
          with Some n found skill show ?thesis by (simp add: handleLook_def)
        next
          case False
          with Some n found skill have "fst (handleLook engine session command) =
              storeRoom engine (location (player session))
                (room\<lparr>state := AList.update skillId True (state room)\<rparr>)"
            by (simp add: handleLook_def Let_def)
          with r show ?thesis by blast
        qed
      qed
    qed
  qed
qed

lemma handleLook_objectAt:
  assumes "objectAt engine k i = Some obj" and "taken obj"
  shows "objectAt (fst (handleLook engine session command)) k i = Some obj"
  using handleLook_engine [of engine session command]
proof
  assume "fst (handleLook engine session command) = engine"
  with assms show ?thesis by simp
next
  assume "\<exists>room flags'. getRoom engine (location (player session)) = Some room \<and>
      fst (handleLook engine session command) =
        storeRoom engine (location (player session)) (room\<lparr>state := flags'\<rparr>)"
  then obtain room flags' where
    r: "getRoom engine (location (player session)) = Some room" and
    e: "fst (handleLook engine session command) =
        storeRoom engine (location (player session)) (room\<lparr>state := flags'\<rparr>)"
    by blast
  show ?thesis
    unfolding e by (rule objectAt_storeRoom [OF r _ _ assms]) simp_all
qed

lemma handleTake_engine:
  "fst (handleTake engine session command) = engine \<or>
   (\<exists>room n. getRoom engine (location (player session)) = Some room \<and>
      fst (handleTake engine session command) =
        storeRoom engine (location (player session))
          (room\<lparr>objects :=
             updateFirst (\<lambda>o'. takeable o' \<and> \<not> taken o' \<and> matchesObject o' n)
               (\<lambda>o'. o'\<lparr>taken := True\<rparr>) (objects room)\<rparr>))"
proof (cases "getCurrentRoom engine session")
  case None
  then show ?thesis by (simp add: handleTake_def)
next
  case (Some room)
  then have r: "getRoom engine (location (player session)) = Some room"
    by (simp add: getCurrentRoom_def getRoom_def)
  show ?thesis
  proof (cases "truthyNoun command")
    case None
    with Some show ?thesis by (simp add: handleTake_def)
  next
    case n: (Some n)
    show ?thesis
    proof (cases "find (\<lambda>o'. takeable o' \<and> \<not> taken o' \<and> matchesObject o' n) (objects room)")
      case None
      with Some n show ?thesis by (simp add: handleTake_def)
    next
      case found: (Some obj)
      from find_updateFirst [OF found] have "\<not> taken obj"
        by blast
      with Some n found have "fst (handleTake engine session command) =
          storeRoom engine (location (player session))
            (room\<lparr>objects :=
               updateFirst (\<lambda>o'. takeable o' \<and> \<not> taken o' \<and> matchesObject o' n)
                 (\<lambda>o'. o'\<lparr>taken := True\<rparr>) (objects room)\<rparr>)"
        by (simp add: handleTake_def Let_def)
      with r have "\<exists>room n. getRoom engine (location (player session)) = Some room \<and>
          fst (handleTake engine session command) =
            storeRoom engine (location (player session))
              (room\<lparr>objects :=
                 updateFirst (\<lambda>o'. takeable o' \<and> \<not> taken o' \<and> matchesObject o' n)
                   (\<lambda>o'. o'\<lparr>taken := True\<rparr>) (objects room)\<rparr>)"
        by (intro exI [of _ room] exI [of _ n] conjI)
      then show ?thesis ..
    qed
  qed
qed

lemma handleTake_objectAt:
  assumes "objectAt engine k i = Some obj" and "taken obj"
  shows "objectAt (fst (handleTake engine session command)) k i = Some obj"
  using handleTake_engine [of engine session command]
proof
  assume "fst (handleTake engine session command) = engine"
  with assms show ?thesis by simp
next
  assume "\<exists>room n. getRoom engine (location (player session)) = Some room \<and>
      fst (handleTake engine session command) =
        storeRoom engine (location (player session))
          (room\<lparr>objects :=
             updateFirst (\<lambda>o'. takeable o' \<and> \<not> taken o' \<and> matchesObject o' n)
               (\<lambda>o'. o'\<lparr>taken := True\<rparr>) (objects room)\<rparr>)"
  then obtain room n where
    r: "getRoom engine (location (player session)) = Some room" and
    e: "fst (handleTake engine session command) =
        storeRoom engine (location (player session))
          (room\<lparr>objects :=
             updateFirst (\<lambda>o'. takeable o' \<and> \<not> taken o' \<and> matchesObject o' n)
               (\<lambda>o'. o'\<lparr>taken := True\<rparr>) (objects room)\<rparr>)"
    by blast
  show ?thesis
    unfolding e
  proof (rule objectAt_storeRoom [OF r _ _ assms])
    show "length (objects (room\<lparr>objects :=
             updateFirst (\<lambda>o'. takeable o' \<and> \<not> taken o' \<and> matchesObject o' n)
               (\<lambda>o'. o'\<lparr>taken := True\<rparr>) (objects room)\<rparr>)) = length (objects room)"
      by (simp add: length_updateFirst)
    fix j
    assume "j < length (objects room)" "taken (objects room ! j)"
    then show "objects (room\<lparr>objects :=
             updateFirst (\<lambda>o'. takeable o' \<and> \<not> taken o' \<and> matchesObject o' n)
               (\<lambda>o'. o'\<lparr>taken := True\<rparr>) (objects room)\<rparr>) ! j = objects room ! j"
      by (simp add: nth_updateFirst_other)
  qed
qed

lemma dispatch_objectAt:
  assumes "verb command \<noteq> ''restart''" and "objectAt engine k i = Some obj" and "taken obj"
  shows "objectAt (fst (dispatch engine session command)) k i = Some obj"
  using assms
  by (simp add: dispatch_def Let_def handleExamine_def handleLook_objectAt handleTake_objectAt
      handleGo_engine handleDrop_engine handleInventory_engine handleUse_engine
      handleTurn_engine handleLight_engine handleExtinguish_engine handleOpen_engine
      handleClose_engine handleAttack_engine handleCast_engine handleRest_engine
      handleHelp_engine handleEquip_engine handleUnequip_engine)

lemma processCommand_objectAt:
  assumes "processCommand engine session input = Inr (engine', session', result)"
    and "noRestart input" and "objectAt engine k i = Some obj" and "taken obj"
  shows "objectAt engine' k i = Some obj"
proof (cases "parse input")
  case (Inl e)
  with assms(1) show ?thesis by (simp add: processCommand_def)
next
  case (Inr command)
  show ?thesis
  proof (cases "valid command")
    case False
    with Inr assms(1,3) show ?thesis by (auto simp: processCommand_def)
  next
    case True
    with Inr assms(1) have "engine' = fst (dispatch engine session command)"
      by (auto simp: processCommand_def)
    moreover have "verb command \<noteq> ''restart''"
      using assms(2) Inr by (simp add: noRestart_def)
    ultimately show ?thesis
      using dispatch_objectAt [OF _ assms(3,4)] by simp
  qed
qed

lemma runCommands_objectAt:
  assumes "runCommands engine session inputs = Inr (engine', session')"
    and "list_all noRestart inputs" and "objectAt engine k i = Some obj" and "taken obj"
  shows "objectAt engine' k i = Some obj"
  using assms
proof (induction inputs arbitrary: engine session)
  case Nil
  then show ?case by simp
next
  case (Cons input inputs)
  show ?case
  proof (cases "processCommand engine session input")
    case (Inl e)
    with Cons.prems(1) show ?thesis by simp
  next
    case (Inr out)
    obtain e1 s1 r1 where out: "out = (e1, s1, r1)" by (cases out)
    from Cons.prems(1) Inr out have run: "runCommands e1 s1 inputs = Inr (engine', session')"
      by simp
    have "objectAt e1 k i = Some obj"
      using processCommand_objectAt [OF Inr [unfolded out] _ Cons.prems(3,4)] Cons.prems(2)
      by simp
    then show ?thesis
      using Cons.IH [OF run] Cons.prems(2,4) by simp
  qed
qed

lemma handleTake_success:
  assumes "handleTake engine session command = (engine1, session1, result)"
    and "success result"
  shows "\<exists>room i obj.
      getCurrentRoom engine session = Some room \<and>
      i < length (objects room) \<and> objects room ! i = obj \<and> takeable obj \<and> \<not> taken obj \<and>
      inventory (player session1) = inventory (player session) @
        [\<lparr>item_id = obj_id obj, item_name = obj_name obj,
          item_description = obj_description obj, quantity = 1,
          equippable = (obj_equipmentSlot obj \<noteq> None),
          item_equipmentSlot = obj_equipmentSlot obj, usable = True, weight = 1\<rparr>] \<and>
      engine1 = storeRoom engine (location (player session))
                  (room\<lparr>objects := (objects room)[i := obj\<lparr>taken := True\<rparr>]\<rparr>)"
proof (cases "getCurrentRoom engine session")
  case None
  with assms show ?thesis by (auto simp: handleTake_def reply_def)
next
  case (Some room)
  show ?thesis
  proof (cases "truthyNoun command")
    case None
    with Some assms show ?thesis by (auto simp: handleTake_def reply_def)
  next
    case n: (Some n)
    show ?thesis
    proof (cases "find (\<lambda>o'. takeable o' \<and> \<not> taken o' \<and> matchesObject o' n) (objects room)")
      case None
      with Some n assms show ?thesis by (auto simp: handleTake_def reply_def)
    next
      case found: (Some obj)
      from find_updateFirst [OF found, of "\<lambda>o'. o'\<lparr>taken := True\<rparr>"] obtain i where
        i: "i < length (objects room)" "objects room ! i = obj"
          "takeable obj \<and> \<not> taken obj \<and> matchesObject obj n"
          "updateFirst (\<lambda>o'. takeable o' \<and> \<not> taken o' \<and> matchesObject o' n)
             (\<lambda>o'. o'\<lparr>taken := True\<rparr>) (objects room) = (objects room)[i := obj\<lparr>taken := True\<rparr>]"
        by blast
      from i(3) Some n found assms(1) have
        inv: "inventory (player session1) = inventory (player session) @
          [\<lparr>item_id = obj_id obj, item_name = obj_name obj,
            item_description = obj_description obj, quantity = 1,
            equippable = (obj_equipmentSlot obj \<noteq> None),
            item_equipmentSlot = obj_equipmentSlot obj, usable = True, weight = 1\<rparr>]"
        and eng: "engine1 = storeRoom engine (location (player session))
          (room\<lparr>objects := updateFirst (\<lambda>o'. takeable o' \<and> \<not> taken o' \<and> matchesObject o' n)
             (\<lambda>o'. o'\<lparr>taken := True\<rparr>) (objects room)\<rparr>)"
        by (auto simp: handleTake_def Let_def)
      from eng have eng': "engine1 = storeRoom engine (location (player session))
          (room\<lparr>objects := (objects room)[i := obj\<lparr>taken := True\<rparr>]\<rparr>)"
        unfolding i(4) .
      show ?thesis
        using Some i(1,2,3) inv eng' by (intro exI [of _ room] exI [of _ i] exI [of _ obj]) simp
    qed
  qed
qed

lemma taken_not_visible: "taken obj \<Longrightarrow> obj \<notin> set (visibleObjects room lit)"
  by (simp add: visibleObjects_def)

lemma filter_without_nth:
  assumes "i < length xs" and "\<not> P (xs ! i)"
  shows "filter P xs = filter P (take i xs @ drop (Suc i) xs)"
proof -
  have "xs = take i xs @ xs ! i # drop (Suc i) xs"
    using assms(1) by (rule id_take_nth_drop)
  then have "filter P xs = filter P (take i xs @ xs ! i # drop (Suc i) xs)"
    by simp
  also have "\<dots> = filter P (take i xs @ drop (Suc i) xs)"
    using assms(2) by simp
  finally show ?thesis .
qed

lemma visibleObjects_without_taken:
  assumes "i < length (objects room)" and "taken (objects room ! i)"
  shows "visibleObjects room lit =
     visibleObjects (room\<lparr>objects := take i (objects room) @ drop (Suc i) (objects room)\<rparr>) lit"
  unfolding visibleObjects_def using assms
  by (simp add: filter_without_nth [of i "objects room"])

lemma findIndex_bound: "findIndex p xs = Some i \<Longrightarrow> i < length xs"
proof (induction xs arbitrary: i)
  case Nil
  then show ?case by simp
next
  case (Cons x xs)
  then show ?case by (cases "p x") auto
qed

lemma handleDrop_session:
  "(case handleDrop engine session command of
      (engine', session', result) \<Rightarrow>
        engine' = engine \<and>
        session' = session\<lparr>player := (player session)\<lparr>inventory := inventory (player session')\<rparr>\<rparr> \<and>
        (if success result
         then \<exists>i < length (inventory (player session)).
                inventory (player session') =
                  take i (inventory (player session)) @ drop (Suc i) (inventory (player session))
         else inventory (player session') = inventory (player session)))"
proof (cases "truthyNoun command")
  case None
  then show ?thesis by (simp add: handleDrop_def reply_def)
next
  case (Some n)
  show ?thesis
  proof (cases "findIndex (\<lambda>i. matchesItem i n) (inventory (player session))")
    case None
    with Some show ?thesis by (simp add: handleDrop_def reply_def)
  next
    case found: (Some i)
    have "i < length (inventory (player session))"
      using found by (rule findIndex_bound)
    with Some found show ?thesis
      by (auto simp: handleDrop_def Let_def reply_def splice1_def)
  qed
qed

section \<open>Equipment\<close>

lemma handleEquip_occupied_slot:
  assumes n: "truthyNoun command = Some n"
    and k: "findIndex (\<lambda>i. matchesItem i n) (inventory (player session)) = Some k"
    and slot: "equippable (inventory (player session) ! k)"
      "item_equipmentSlot (inventory (player session) ! k) = Some slot"
    and held: "map_of (equippedItems (player session)) slot = Some held" "held \<noteq> []"
    and gone: "find (\<lambda>i. item_id i = held) (inventory (player session)) = None"
  shows "handleEquip engine session command =
     (engine,
      session\<lparr>player := (player session)
        \<lparr>equippedItems := AList.update slot (item_id (inventory (player session) ! k))
                            (equippedItems (player session)),
         inventory := splice1 k (inventory (player session))\<rparr>\<rparr>,
      (reply True (''You equip the '' @ item_name (inventory (player session) ! k) @ ''.''))
        \<lparr>changes := Some (noChanges
           \<lparr>sc_inventory := Some (splice1 k (inventory (player session))),
            sc_equippedItems := Some (AList.update slot (item_id (inventory (player session) ! k))
                                        (equippedItems (player session)))\<rparr>)\<rparr>)"
  using assms by (simp add: handleEquip_def Let_def orUndefined_def)

text \<open>
  Claim C1, at an input where the code departs from it. The player takes the
  torch and the lantern and equips the torch, which leaves the inventory. The
  \<open>light_source\<close> slot is then occupied, and equipping the lantern succeeds all
  the same: the slot holds the lantern and the id of the torch is in neither
  the slot nor the inventory. The handler looks for the equipped id in the
  inventory before it refuses, and an equipped item is never there.
\<close>

theorem handleEquip_overwrites_occupied_slot:
  "(case runCommands exampleEngine exampleSession
           [''take torch'', ''take lantern'', ''equip torch''] of
      Inl e \<Rightarrow> False
    | Inr (engine, session) \<Rightarrow>
        equippedItems (player session) = [(light_source, ''torch'')] \<and>
        map item_id (inventory (player session)) = [''lantern''] \<and>
        (case processCommand engine session ''equip lantern'' of
           Inl e \<Rightarrow> False
         | Inr (engine', session', result) \<Rightarrow>
             success result \<and> message result = ''You equip the lantern.'' \<and>
             equippedItems (player session') = [(light_source, ''lantern'')] \<and>
             inventory (player session') = []))"
  by code_simp

section \<open>Movement and combat\<close>

lemma handleGo_dangling:
  assumes room: "getCurrentRoom engine session = Some room"
    and n: "noun command = Some n" "toLowerCase n \<noteq> []"
    and exit: "map_of (exits room) (toLowerCase n) = Some exit"
    and gate: "canUseExit engine exit (player session) = Allowed"
    and dangling: "getRoom engine (exit_to exit) = None"
  shows "handleGo engine session command =
     (engine,
      session\<lparr>player := (player session)
        \<lparr>visitedRooms :=
           (if Some (exit_to exit) \<in> set (visitedRooms (player session))
            then visitedRooms (player session)
            else visitedRooms (player session) @ [Some (exit_to exit)])\<rparr>\<rparr>,
      reply False ''Error: That room doesn't exist.'')"
  using assms by (simp add: handleGo_def Let_def orUndefined_def getProperty_def)

text \<open>
  Claim C2, at an input where the code departs from it. The exit east of the
  start room passes the gate and leads to \<open>ROOM_404\<close>, which is not in the store.
  The go handler fails with its error message and restores the location, and
  the id of the missing room stays in \<open>visitedRooms\<close>: the player after the call
  is not the player before it.
\<close>

theorem handleGo_dangling_keeps_visited:
  "getRoom exampleEngine ''ROOM_404'' = None \<and>
   (case processCommand exampleEngine exampleSession ''go east'' of
      Inl e \<Rightarrow> False
    | Inr (engine', session', result) \<Rightarrow>
        \<not> success result \<and> message result = ''Error: That room doesn't exist.'' \<and>
        location (player session') = location (player exampleSession) \<and>
        visitedRooms (player exampleSession) = [] \<and>
        visitedRooms (player session') = [Some ''ROOM_404''] \<and>
        player session' \<noteq> player exampleSession)"
  by code_simp

lemma handleDrop_inCombat:
  "inCombat session \<Longrightarrow> inCombat (fst (snd (handleDrop engine session command)))"
  by (simp add: handleDrop_def Let_def split: option.splits)

lemma handleInventory_inCombat:
  "inCombat session \<Longrightarrow> inCombat (fst (snd (handleInventory engine session command)))"
  by (simp add: handleInventory_def Let_def)

lemma handleUse_inCombat:
  "inCombat session \<Longrightarrow> inCombat (fst (snd (handleUse engine session command)))"
  by (simp add: handleUse_def Let_def split: option.splits)

lemma handleLight_inCombat:
  "inCombat session \<Longrightarrow> inCombat (fst (snd (handleLight engine session command)))"
  by (simp add: handleLight_def Let_def split: option.splits)

lemma handleExtinguish_inCombat:
  "inCombat session \<Longrightarrow> inCombat (fst (snd (handleExtinguish engine session command)))"
  by (simp add: handleExtinguish_def Let_def split: option.splits)

lemma handleOpen_inCombat:
  "inCombat session \<Longrightarrow> inCombat (fst (snd (handleOpen engine session command)))"
  by (simp add: handleOpen_def Let_def split: option.splits)

lemma handleClose_inCombat:
  "inCombat session \<Longrightarrow> inCombat (fst (snd (handleClose engine session command)))"
  by (simp add: handleClose_def Let_def split: option.splits)

lemma handleAttack_inCombat:
  "inCombat session \<Longrightarrow> inCombat (fst (snd (handleAttack engine session command)))"
  by (simp add: handleAttack_def Let_def)

lemma handleCast_inCombat:
  "inCombat session \<Longrightarrow> inCombat (fst (snd (handleCast engine session command)))"
  by (simp add: handleCast_def Let_def split: option.splits)

lemma handleRest_inCombat:
  "inCombat session \<Longrightarrow> inCombat (fst (snd (handleRest engine session command)))"
  by (simp add: handleRest_def Let_def)

lemma handleHelp_inCombat:
  "inCombat session \<Longrightarrow> inCombat (fst (snd (handleHelp engine session command)))"
  by (simp add: handleHelp_def Let_def)

lemma handleEquip_inCombat:
  "inCombat session \<Longrightarrow> inCombat (fst (snd (handleEquip engine session command)))"
  by (simp add: handleEquip_def Let_def split: option.splits)

lemma handleRestart_inCombat:
  "inCombat session \<Longrightarrow> inCombat (fst (snd (handleRestart engine session command)))"
  by (simp add: handleRestart_def Let_def)

lemma handleUnequip_inCombat:
  "inCombat session \<Longrightarrow> inCombat (fst (snd (handleUnequip engine session command)))"
  by (simp add: handleUnequip_def Let_def split: option.splits prod.splits)

lemma handleTurn_inCombat:
  "inCombat session \<Longrightarrow> inCombat (fst (snd (handleTurn engine session command)))"
  by (simp add: handleTurn_def Let_def handleLight_inCombat handleExtinguish_inCombat
      split: option.splits)

lemma handleLook_inCombat:
  "inCombat session \<Longrightarrow> inCombat (fst (snd (handleLook engine session command)))"
  by (simp add: handleLook_def Let_def split: option.splits)

lemma handleTake_inCombat:
  "inCombat session \<Longrightarrow> inCombat (fst (snd (handleTake engine session command)))"
  by (simp add: handleTake_def Let_def split: option.splits)

lemma handleGo_inCombat:
  "inCombat session \<Longrightarrow> inCombat (fst (snd (handleGo engine session command)))"
  by (simp add: handleGo_def Let_def split: option.splits property.splits ExitCheck.splits)

lemma dispatch_inCombat:
  "inCombat session \<Longrightarrow> inCombat (fst (snd (dispatch engine session command)))"
  by (simp add: dispatch_def Let_def handleExamine_def handleLook_inCombat handleTake_inCombat
      handleGo_inCombat handleDrop_inCombat handleInventory_inCombat handleUse_inCombat
      handleTurn_inCombat handleLight_inCombat handleExtinguish_inCombat handleOpen_inCombat
      handleClose_inCombat handleAttack_inCombat handleCast_inCombat handleRest_inCombat
      handleHelp_inCombat handleEquip_inCombat handleUnequip_inCombat handleRestart_inCombat)

lemma processCommand_inCombat:
  assumes "processCommand engine session input = Inr (engine', session', result)"
    and "inCombat session"
  shows "inCombat session'"
proof (cases "parse input")
  case (Inl e)
  with assms(1) show ?thesis by (simp add: processCommand_def)
next
  case (Inr command)
  show ?thesis
  proof (cases "valid command")
    case False
    with Inr assms show ?thesis by (auto simp: processCommand_def)
  next
    case True
    with Inr assms(1) have "session' = fst (snd (dispatch engine session command))"
      by (auto simp: processCommand_def)
    with assms(2) show ?thesis by (simp add: dispatch_inCombat)
  qed
qed

text \<open>
  Claim C3, at an input where the code departs from it. Going north from the
  start room meets a hostile NPC: combat is triggered and the session is marked
  in combat. In that state resting is refused, and going south succeeds: the
  player is back in the start room, out of the room of the enemy, with the
  session still marked in combat.
\<close>

theorem go_leaves_combat_room:
  "(case processCommand exampleEngine exampleSession ''go north'' of
      Inl e \<Rightarrow> False
    | Inr (engine, session, entered) \<Rightarrow>
        combatTriggered entered = Some True \<and> inCombat session \<and>
        currentEnemy session = Some ''ghoul'' \<and>
        location (player session) = ''ROOM_002'' \<and>
        (case processCommand engine session ''rest'' of
           Inl e \<Rightarrow> False
         | Inr (engine', session', rested) \<Rightarrow>
             \<not> success rested \<and> message rested = ''You can't rest during combat!'') \<and>
        (case processCommand engine session ''go south'' of
           Inl e \<Rightarrow> False
         | Inr (engine', session', left) \<Rightarrow>
             success left \<and> location (player session') = ''ROOM_001'' \<and> inCombat session'))"
  by code_simp

section \<open>Arriving in a room\<close>

lemma storeKeyed_getRoom:
  "storeKeyed engine \<Longrightarrow> getRoom engine k = Some room \<Longrightarrow> room_id (identity room) = k"
  by (auto simp: storeKeyed_def getRoom_def list_all_iff dest!: map_of_SomeD)

lemma hasLight_descriptions [simp]:
  "hasLight (room\<lparr>descriptions := d\<rparr>) p = hasLight room p"
  by (simp add: hasLight_def)

lemma checkNpcSpawnConditions_descriptions [simp]:
  "checkNpcSpawnConditions cs (room\<lparr>descriptions := d\<rparr>) p = checkNpcSpawnConditions cs room p"
  by (induction cs) simp_all

lemma listing_descriptions [simp]:
  "visibleObjects (room\<lparr>descriptions := d\<rparr>) lit = visibleObjects room lit"
  "visibleExits (room\<lparr>descriptions := d\<rparr>) = visibleExits room"
  "visibleNpcs (room\<lparr>descriptions := d\<rparr>) p = visibleNpcs room p"
  by (simp_all add: visibleObjects_def visibleExits_def visibleNpcs_def)

lemma activeVariant_initial [simp]:
  "activeVariant (room\<lparr>descriptions := (descriptions room)\<lparr>initial := text\<rparr>\<rparr>) = activeVariant room"
  by (simp add: activeVariant_def)

lemma chooseDescription_visited:
  assumes "Some (room_id (identity room)) \<in> set (visitedRooms p)"
  shows "chooseDescription (room\<lparr>descriptions := (descriptions room)\<lparr>initial := text\<rparr>\<rparr>) p verbose lit =
     chooseDescription room p verbose lit"
  using assms by (simp add: chooseDescription_def)

lemma getRoomDescription_visited:
  assumes "Some (room_id (identity room)) \<in> set (visitedRooms p)"
  shows "getRoomDescription (room\<lparr>descriptions := (descriptions room)\<lparr>initial := text\<rparr>\<rparr>) p verbose =
     getRoomDescription room p verbose"
  using assms by (simp add: getRoomDescription_def Let_def chooseDescription_visited)

lemma foldl_append_prefix:
  "\<exists>rest. foldl (\<lambda>d x. d @ sep @ f x) init xs = init @ rest"
proof (induction xs arbitrary: init)
  case Nil
  show ?case by simp
next
  case (Cons x xs)
  from Cons [of "init @ sep @ f x"] obtain rest where
    "foldl (\<lambda>d x. d @ sep @ f x) (init @ sep @ f x) xs = (init @ sep @ f x) @ rest"
    by blast
  then show ?case by simp
qed

lemma getRoomDescription_lit_visited:
  assumes lit: "isLit (lighting room)"
    and visited: "Some (room_id (identity room)) \<in> set (visitedRooms p)"
  shows "\<exists>rest. getRoomDescription room p False =
     (case activeVariant room of
        Some (variant, text) \<Rightarrow> text
      | None \<Rightarrow> if desc_visited (descriptions room) \<noteq> [] then desc_visited (descriptions room)
                else short (descriptions room)) @ rest"
proof -
  define start where "start =
     (case activeVariant room of
        Some (variant, text) \<Rightarrow> text
      | None \<Rightarrow> if desc_visited (descriptions room) \<noteq> [] then desc_visited (descriptions room)
                else short (descriptions room))"
  define withObjects where "withObjects =
     (if length (visibleObjects room True) > 0 then
        start @ ''\<newline>\<newline>You can see: '' @ joinWith '', '' (map obj_name (visibleObjects room True))
      else start)"
  define withExits where "withExits =
     (if length (visibleExits room) > 0 \<and> True then
        withObjects @ ''\<newline>\<newline>Exits: '' @ joinWith '', '' (visibleExits room)
      else withObjects)"
  have light: "hasLight room p"
    using lit by (simp add: hasLight_def)
  have chosen: "chooseDescription room p False True =
      (if desc_visited (descriptions room) \<noteq> [] then desc_visited (descriptions room)
       else short (descriptions room))"
    using lit visited by (simp add: chooseDescription_def)
  have whole: "getRoomDescription room p False =
      foldl (\<lambda>description npc. description @ ''\<newline>\<newline>'' @ npc_description npc)
        withExits (visibleNpcs room p)"
    unfolding getRoomDescription_def Let_def withExits_def withObjects_def start_def
    using light chosen by (simp split: option.splits)
  obtain r1 where r1: "withObjects = start @ r1"
    unfolding withObjects_def by (cases "length (visibleObjects room True) > 0") auto
  obtain r2 where r2: "withExits = withObjects @ r2"
    unfolding withExits_def by (cases "length (visibleExits room) > 0") auto
  from foldl_append_prefix [of "''\<newline>\<newline>''" npc_description withExits "visibleNpcs room p"]
  obtain r3 where r3: "foldl (\<lambda>description npc. description @ ''\<newline>\<newline>'' @ npc_description npc)
        withExits (visibleNpcs room p) = withExits @ r3"
    by blast
  have "getRoomDescription room p False = withExits @ r3"
    by (simp only: whole r3)
  then have "getRoomDescription room p False = start @ (r1 @ r2 @ r3)"
    by (simp only: r2 r1 append_assoc)
  then show ?thesis
    unfolding start_def by blast
qed

lemma handleGo_success:
  assumes go: "handleGo engine session command = (engine', session', result)"
    and ok: "success result"
  shows "\<exists>n room exit newRoom.
      noun command = Some n \<and> getCurrentRoom engine session = Some room \<and>
      map_of (exits room) (toLowerCase n) = Some exit \<and>
      getRoom engine (exit_to exit) = Some newRoom \<and>
      player session' = (player session)
        \<lparr>location := exit_to exit,
         visitedRooms :=
           (if Some (exit_to exit) \<in> set (visitedRooms (player session))
            then visitedRooms (player session)
            else visitedRooms (player session) @ [Some (exit_to exit)])\<rparr> \<and>
      (\<exists>suffix. message result =
         (if travelText exit \<noteq> [] then travelText exit @ ''\<newline>\<newline>'' else [])
         @ getRoomDescription newRoom (player session') False @ suffix)"
proof (cases "getCurrentRoom engine session")
  case None
  with go ok show ?thesis by (auto simp: handleGo_def reply_def)
next
  case (Some room)
  show ?thesis
  proof (cases "noun command")
    case None
    with Some go ok show ?thesis by (auto simp: handleGo_def reply_def)
  next
    case n: (Some n)
    show ?thesis
    proof (cases "orUndefined (toLowerCase n)")
      case None
      with Some n go ok show ?thesis by (auto simp: handleGo_def reply_def)
    next
      case direction: (Some direction)
      then have d: "direction = toLowerCase n"
        by (auto simp: orUndefined_def split: if_splits)
      show ?thesis
      proof (cases "getProperty (exits room) direction")
        case Undefined
        with Some n direction go ok show ?thesis by (auto simp: handleGo_def reply_def)
      next
        case Inherited
        with Some n direction go ok show ?thesis
          by (auto simp: handleGo_def Let_def reply_def)
      next
        case (Own exit)
        then have ex: "map_of (exits room) (toLowerCase n) = Some exit"
          unfolding d by (auto simp: getProperty_def split: option.splits if_splits)
        show ?thesis
        proof (cases "canUseExit engine exit (player session)")
          case (Blocked msg)
          with Some n direction Own go ok show ?thesis
            by (auto simp: handleGo_def reply_def)
        next
          case Allowed
          show ?thesis
          proof (cases "getRoom engine (exit_to exit)")
            case None
            with Some n direction Own Allowed go ok show ?thesis
              by (auto simp: handleGo_def Let_def reply_def)
          next
            case newRoom: (Some newRoom)
            define moved where "moved = (player session)
                \<lparr>location := exit_to exit,
                 visitedRooms :=
                   (if Some (exit_to exit) \<in> set (visitedRooms (player session))
                    then visitedRooms (player session)
                    else visitedRooms (player session) @ [Some (exit_to exit)])\<rparr>"
            define hostileNpc where "hostileNpc =
                find (\<lambda>npc. hostile npc \<and>
                        checkNpcSpawnConditions (spawnConditions npc) newRoom moved)
                  (npcs newRoom)"
            have result: "player session' = moved \<and>
                (\<exists>suffix. message result =
                   (if travelText exit \<noteq> [] then travelText exit @ ''\<newline>\<newline>'' else [])
                   @ getRoomDescription newRoom moved False @ suffix)"
            proof (cases hostileNpc)
              case None
              with Some n direction Own Allowed newRoom go show ?thesis
                unfolding hostileNpc_def moved_def
                by (auto simp: handleGo_def Let_def)
            next
              case (Some npc)
              with \<open>getCurrentRoom engine session = Some room\<close> n direction Own Allowed newRoom go
              show ?thesis
                unfolding hostileNpc_def moved_def
                by (auto simp: handleGo_def Let_def)
            qed
            then have "player session' = moved" and
              "\<exists>suffix. message result =
                   (if travelText exit \<noteq> [] then travelText exit @ ''\<newline>\<newline>'' else [])
                   @ getRoomDescription newRoom (player session') False @ suffix"
              by simp_all
            with Some n ex newRoom show ?thesis
              unfolding moved_def
              by (intro exI [of _ n] exI [of _ room] exI [of _ exit] exI [of _ newRoom]) simp
          qed
        qed
      qed
    qed
  qed
qed

lemma list_all_update:
  "list_all P store \<Longrightarrow> P (k, v) \<Longrightarrow> list_all P (AList.update k v store)"
  by (induction store) auto

lemma loadRooms_keyed: "storeKeyed engine \<Longrightarrow> storeKeyed (loadRooms engine roomData)"
proof -
  have "list_all (\<lambda>(roomId, room). room_id (identity room) = roomId) store \<Longrightarrow>
      list_all (\<lambda>(roomId, room). room_id (identity room) = roomId)
        (fold (\<lambda>room store. AList.update (room_id (identity room)) room store) roomData store)"
    for store
    by (induction roomData arbitrary: store) (simp_all add: list_all_update)
  then show "storeKeyed engine \<Longrightarrow> storeKeyed (loadRooms engine roomData)"
    by (simp add: storeKeyed_def loadRooms_def)
qed

lemma storeRoom_keyed:
  assumes "storeKeyed engine" and "getRoom engine loc = Some room"
    and "identity room' = identity room"
  shows "storeKeyed (storeRoom engine loc room')"
proof -
  have "room_id (identity room) = loc"
    using assms(1,2) by (rule storeKeyed_getRoom)
  with assms(1,3) show ?thesis
    by (simp add: storeKeyed_def storeRoom_def list_all_update)
qed

lemma dispatch_keyed:
  assumes keyed: "storeKeyed engine"
  shows "storeKeyed (fst (dispatch engine session command))"
proof -
  have look: "storeKeyed (fst (handleLook engine session command))"
    using handleLook_engine [of engine session command]
  proof
    assume "fst (handleLook engine session command) = engine"
    with keyed show ?thesis by simp
  next
    assume "\<exists>room flags'. getRoom engine (location (player session)) = Some room \<and>
      fst (handleLook engine session command) =
        storeRoom engine (location (player session)) (room\<lparr>state := flags'\<rparr>)"
    then obtain room flags' where
      r: "getRoom engine (location (player session)) = Some room" and
      e: "fst (handleLook engine session command) =
        storeRoom engine (location (player session)) (room\<lparr>state := flags'\<rparr>)"
      by blast
    show ?thesis
      unfolding e by (rule storeRoom_keyed [OF keyed r]) simp
  qed
  have take: "storeKeyed (fst (handleTake engine session command))"
    using handleTake_engine [of engine session command]
  proof
    assume "fst (handleTake engine session command) = engine"
    with keyed show ?thesis by simp
  next
    assume "\<exists>room n. getRoom engine (location (player session)) = Some room \<and>
      fst (handleTake engine session command) =
        storeRoom engine (location (player session))
          (room\<lparr>objects :=
             updateFirst (\<lambda>o'. takeable o' \<and> \<not> taken o' \<and> matchesObject o' n)
               (\<lambda>o'. o'\<lparr>taken := True\<rparr>) (objects room)\<rparr>)"
    then obtain room n where
      r: "getRoom engine (location (player session)) = Some room" and
      e: "fst (handleTake engine session command) =
        storeRoom engine (location (player session))
          (room\<lparr>objects :=
             updateFirst (\<lambda>o'. takeable o' \<and> \<not> taken o' \<and> matchesObject o' n)
               (\<lambda>o'. o'\<lparr>taken := True\<rparr>) (objects room)\<rparr>)"
      by blast
    show ?thesis
      unfolding e by (rule storeRoom_keyed [OF keyed r]) simp
  qed
  have restart: "storeKeyed (fst (handleRestart engine session command))"
    using keyed unfolding handleRestart_result
    by (auto simp: storeKeyed_def list_all_iff resetRoom_frame(1))
  show ?thesis
    using keyed look take restart
    by (simp add: dispatch_def Let_def handleExamine_def
      handleGo_engine handleDrop_engine handleInventory_engine handleUse_engine
      handleTurn_engine handleLight_engine handleExtinguish_engine handleOpen_engine
      handleClose_engine handleAttack_engine handleCast_engine handleRest_engine
      handleHelp_engine handleEquip_engine handleUnequip_engine)
qed

lemma processCommand_keyed:
  assumes "processCommand engine session input = Inr (engine', session', result)"
    and "storeKeyed engine"
  shows "storeKeyed engine'"
proof (cases "parse input")
  case (Inl e)
  with assms(1) show ?thesis by (simp add: processCommand_def)
next
  case (Inr command)
  show ?thesis
  proof (cases "valid command")
    case False
    with Inr assms show ?thesis by (auto simp: processCommand_def)
  next
    case True
    with Inr assms(1) have "engine' = fst (dispatch engine session command)"
      by (auto simp: processCommand_def)
    with assms(2) show ?thesis by (simp add: dispatch_keyed)
  qed
qed

lemma map_of_retitled:
  "map_of (map (\<lambda>(roomId, room). (roomId, retitle f roomId room)) store) k =
     map_option (retitle f k) (map_of store k)"
  by (induction store) auto

lemma getRoom_withInitial:
  "getRoom (withInitial f engine) k = map_option (retitle f k) (getRoom engine k)"
  by (simp add: getRoom_def withInitial_def map_of_retitled)

lemma getCurrentRoom_withInitial:
  "getCurrentRoom (withInitial f engine) session =
     map_option (retitle f (location (player session))) (getCurrentRoom engine session)"
  by (simp add: getCurrentRoom_def withInitial_def map_of_retitled)

lemma retitle_fields [simp]:
  "objects (retitle f k room) = objects room"
  "npcs (retitle f k room) = npcs room"
  "exits (retitle f k room) = exits room"
  "state (retitle f k room) = state room"
  "lighting (retitle f k room) = lighting room"
  "identity (retitle f k room) = identity room"
  by (simp_all add: retitle_def)

lemma withInitial_fields [simp]:
  "config (withInitial f engine) = config engine"
  "worldState (withInitial f engine) = worldState engine"
  by (simp_all add: withInitial_def)

lemma update_retitled:
  "AList.update k (retitle f k room)
     (map (\<lambda>(roomId, room). (roomId, retitle f roomId room)) store) =
   map (\<lambda>(roomId, room). (roomId, retitle f roomId room)) (AList.update k room store)"
  by (induction store) auto

lemma storeRoom_withInitial:
  "storeRoom (withInitial f engine) k (retitle f k room) = withInitial f (storeRoom engine k room)"
  by (simp add: storeRoom_def withInitial_def update_retitled)

lemma retitle_objects_update:
  "(retitle f k room)\<lparr>objects := os\<rparr> = retitle f k (room\<lparr>objects := os\<rparr>)"
  "(retitle f k room)\<lparr>state := st\<rparr> = retitle f k (room\<lparr>state := st\<rparr>)"
  by (simp_all add: retitle_def)

lemma matchesEquipped_withInitial [simp]:
  "matchesEquipped (withInitial f engine) i n = matchesEquipped engine i n"
  by (simp add: matchesEquipped_def withInitial_def list_ex_iff case_prod_beta image_iff Bex_def)
    (metis fst_conv snd_conv retitle_fields(1))

lemma findDefinition_retitled [simp]:
  "findDefinition (map (\<lambda>(roomId, room). (roomId, retitle f roomId room)) store) i =
     findDefinition store i"
  by (induction store) (auto split: option.splits)

lemma rooms_withInitial:
  "rooms (withInitial f engine) = map (\<lambda>(roomId, room). (roomId, retitle f roomId room)) (rooms engine)"
  by (simp add: withInitial_def)

lemma getWorldState_withInitial [simp]:
  "getWorldState (withInitial f engine) k = getWorldState engine k"
  by (simp add: getWorldState_def)

lemma canUseExit_withInitial [simp]:
  "canUseExit (withInitial f engine) exit p = canUseExit engine exit p"
  by (simp add: canUseExit_def split: option.splits RequirementType.splits)

lemma handleDrop_withInitial:
  "handleDrop (withInitial f engine) session command =
     (withInitial f engine, snd (handleDrop engine session command))"
  by (simp add: handleDrop_def Let_def split: option.splits)

lemma handleInventory_withInitial:
  "handleInventory (withInitial f engine) session command =
     (withInitial f engine, snd (handleInventory engine session command))"
  by (simp add: handleInventory_def Let_def)

lemma handleUse_withInitial:
  "handleUse (withInitial f engine) session command =
     (withInitial f engine, snd (handleUse engine session command))"
  by (simp add: handleUse_def Let_def split: option.splits)

lemma handleLight_withInitial:
  "handleLight (withInitial f engine) session command =
     (withInitial f engine, snd (handleLight engine session command))"
  by (simp add: handleLight_def Let_def split: option.splits)

lemma handleExtinguish_withInitial:
  "handleExtinguish (withInitial f engine) session command =
     (withInitial f engine, snd (handleExtinguish engine session command))"
  by (simp add: handleExtinguish_def Let_def split: option.splits)

lemma handleOpen_withInitial:
  "handleOpen (withInitial f engine) session command =
     (withInitial f engine, snd (handleOpen engine session command))"
  by (simp add: handleOpen_def Let_def split: option.splits)

lemma handleClose_withInitial:
  "handleClose (withInitial f engine) session command =
     (withInitial f engine, snd (handleClose engine session command))"
  by (simp add: handleClose_def Let_def split: option.splits)

lemma handleAttack_withInitial:
  "handleAttack (withInitial f engine) session command =
     (withInitial f engine, snd (handleAttack engine session command))"
  by (simp add: handleAttack_def Let_def)

lemma handleCast_withInitial:
  "handleCast (withInitial f engine) session command =
     (withInitial f engine, snd (handleCast engine session command))"
  by (simp add: handleCast_def Let_def split: option.splits)

lemma handleRest_withInitial:
  "handleRest (withInitial f engine) session command =
     (withInitial f engine, snd (handleRest engine session command))"
  by (simp add: handleRest_def Let_def)

lemma handleHelp_withInitial:
  "handleHelp (withInitial f engine) session command =
     (withInitial f engine, snd (handleHelp engine session command))"
  by (simp add: handleHelp_def Let_def)

lemma handleEquip_withInitial:
  "handleEquip (withInitial f engine) session command =
     (withInitial f engine, snd (handleEquip engine session command))"
  by (simp add: handleEquip_def Let_def split: option.splits)

lemma handleTurn_withInitial:
  "handleTurn (withInitial f engine) session command =
     (withInitial f engine, snd (handleTurn engine session command))"
  by (simp add: handleTurn_def Let_def handleLight_withInitial handleExtinguish_withInitial
      split: option.splits)

lemma handleUnequip_withInitial:
  "handleUnequip (withInitial f engine) session command =
     (withInitial f engine, snd (handleUnequip engine session command))"
  by (simp add: handleUnequip_def Let_def rooms_withInitial split: option.splits prod.splits)

lemma resetRoom_retitle: "resetRoom (retitle f k room) = retitle f k (resetRoom room)"
  by (simp add: resetRoom_def retitle_def)

lemma createNewPlayer_withInitial [simp]:
  "createNewPlayer (withInitial f engine) n r = createNewPlayer engine n r"
  by (simp add: createNewPlayer_def)

lemma handleRestart_withInitial:
  "handleRestart (withInitial f engine) session command =
     (withInitial f (fst (handleRestart engine session command)),
      snd (handleRestart engine session command))"
  unfolding handleRestart_result
  by (simp add: withInitial_def case_prod_beta resetRoom_retitle createNewPlayer_def)

lemma handleTake_withInitial:
  "handleTake (withInitial f engine) session command =
     (withInitial f (fst (handleTake engine session command)),
      snd (handleTake engine session command))"
proof (cases "getCurrentRoom engine session")
  case None
  then show ?thesis
    by (simp add: handleTake_def getCurrentRoom_withInitial)
next
  case (Some room)
  show ?thesis
  proof (cases "truthyNoun command")
    case None
    with Some show ?thesis
      by (simp add: handleTake_def getCurrentRoom_withInitial)
  next
    case n: (Some n)
    show ?thesis
    proof (cases "find (\<lambda>o'. takeable o' \<and> \<not> taken o' \<and> matchesObject o' n) (objects room)")
      case None
      with Some n show ?thesis
        by (simp add: handleTake_def getCurrentRoom_withInitial)
    next
      case found: (Some obj)
      from find_updateFirst [OF found] have "\<not> taken obj"
        by blast
      with Some n found show ?thesis
        by (simp add: handleTake_def Let_def getCurrentRoom_withInitial
            retitle_objects_update storeRoom_withInitial)
    qed
  qed
qed

lemma handleLook_withInitial:
  assumes keyed: "storeKeyed engine"
    and seen: "truthyNoun command \<noteq> None \<or>
      Some (location (player session)) \<in> set (visitedRooms (player session))"
  shows "handleLook (withInitial f engine) session command =
     (withInitial f (fst (handleLook engine session command)),
      snd (handleLook engine session command))"
proof (cases "getCurrentRoom engine session")
  case None
  then show ?thesis
    by (simp add: handleLook_def getCurrentRoom_withInitial)
next
  case (Some room)
  then have "getRoom engine (location (player session)) = Some room"
    by (simp add: getCurrentRoom_def getRoom_def)
  with keyed have rid: "room_id (identity room) = location (player session)"
    by (rule storeKeyed_getRoom)
  show ?thesis
  proof (cases "truthyNoun command")
    case None
    with seen have "Some (room_id (identity room)) \<in> set (visitedRooms (player session))"
      unfolding rid by simp
    then have "getRoomDescription (retitle f (location (player session)) room) (player session) True =
        getRoomDescription room (player session) True"
      unfolding retitle_def by (rule getRoomDescription_visited)
    with Some None show ?thesis
      by (simp add: handleLook_def getCurrentRoom_withInitial)
  next
    case n: (Some n)
    show ?thesis
    proof (cases "find (\<lambda>o'. matchesObject o' n) (objects room)")
      case None
      with Some n show ?thesis
        by (simp add: handleLook_def getCurrentRoom_withInitial split: option.splits)
    next
      case found: (Some obj)
      show ?thesis
      proof (cases "abilityLearned obj")
        case None
        with Some n found show ?thesis
          by (simp add: handleLook_def getCurrentRoom_withInitial)
      next
        case skill: (Some skillId)
        with Some n found show ?thesis
          by (simp add: handleLook_def Let_def getCurrentRoom_withInitial
              retitle_objects_update storeRoom_withInitial)
      qed
    qed
  qed
qed

lemma getRoomDescription_retitle:
  "Some (room_id (identity room)) \<in> set (visitedRooms p) \<Longrightarrow>
   getRoomDescription (retitle f k room) p verbose = getRoomDescription room p verbose"
  unfolding retitle_def by (rule getRoomDescription_visited)

lemma checkNpcSpawnConditions_retitle:
  "checkNpcSpawnConditions cs (retitle f k room) p = checkNpcSpawnConditions cs room p"
  by (simp add: retitle_def)

lemma handleGo_withInitial:
  assumes keyed: "storeKeyed engine"
  shows "handleGo (withInitial f engine) session command =
     (withInitial f engine, snd (handleGo engine session command))"
proof (cases "getCurrentRoom engine session")
  case None
  then show ?thesis
    by (simp add: handleGo_def getCurrentRoom_withInitial)
next
  case (Some room)
  show ?thesis
  proof (cases "case noun command of None \<Rightarrow> None | Some n \<Rightarrow> orUndefined (toLowerCase n)")
    case None
    with Some show ?thesis
      by (simp add: handleGo_def getCurrentRoom_withInitial)
  next
    case direction: (Some direction)
    show ?thesis
    proof (cases "getProperty (exits room) direction")
      case Undefined
      with Some direction show ?thesis
        by (simp add: handleGo_def getCurrentRoom_withInitial)
    next
      case Inherited
      with Some direction show ?thesis
        by (simp add: handleGo_def Let_def getCurrentRoom_withInitial)
    next
      case (Own exit)
      show ?thesis
      proof (cases "canUseExit engine exit (player session)")
        case (Blocked msg)
        with Some direction Own show ?thesis
          by (simp add: handleGo_def getCurrentRoom_withInitial)
      next
        case Allowed
        show ?thesis
        proof (cases "getRoom engine (exit_to exit)")
          case None
          with Some direction Own Allowed show ?thesis
            by (simp add: handleGo_def Let_def getCurrentRoom_withInitial getRoom_withInitial)
        next
          case newRoom: (Some newRoom)
          have rid: "room_id (identity newRoom) = exit_to exit"
            using keyed newRoom by (rule storeKeyed_getRoom)
          from Some direction Own Allowed newRoom rid show ?thesis
            by (simp add: handleGo_def Let_def getCurrentRoom_withInitial getRoom_withInitial
                getRoomDescription_retitle checkNpcSpawnConditions_retitle
                split: option.splits)
        qed
      qed
    qed
  qed
qed

lemma dispatch_withInitial:
  assumes keyed: "storeKeyed engine"
    and seen: "verb command = ''look'' \<or> verb command = ''examine'' \<longrightarrow>
      truthyNoun command \<noteq> None \<or>
      Some (location (player session)) \<in> set (visitedRooms (player session))"
  shows "dispatch (withInitial f engine) session command =
     (withInitial f (fst (dispatch engine session command)),
      snd (dispatch engine session command))"
proof -
  have look: "verb command = ''look'' \<or> verb command = ''examine'' \<Longrightarrow>
      handleLook (withInitial f engine) session command =
        (withInitial f (fst (handleLook engine session command)),
         snd (handleLook engine session command))"
    using seen by (intro handleLook_withInitial [OF keyed]) blast
  show ?thesis
    using look
    by (simp add: dispatch_def Let_def handleExamine_def handleTake_withInitial
      handleRestart_withInitial handleGo_withInitial [OF keyed]
      handleDrop_withInitial handleInventory_withInitial handleUse_withInitial
      handleTurn_withInitial handleLight_withInitial handleExtinguish_withInitial
      handleOpen_withInitial handleClose_withInitial handleAttack_withInitial
      handleCast_withInitial handleRest_withInitial handleHelp_withInitial
      handleEquip_withInitial handleUnequip_withInitial
      handleGo_engine handleDrop_engine handleInventory_engine handleUse_engine
      handleTurn_engine handleLight_engine handleExtinguish_engine handleOpen_engine
      handleClose_engine handleAttack_engine handleCast_engine handleRest_engine
      handleHelp_engine handleEquip_engine handleUnequip_engine)
qed

lemma processCommand_withInitial:
  assumes keyed: "storeKeyed engine"
    and seen: "case parse input of
        Inl e \<Rightarrow> True
      | Inr command \<Rightarrow>
          verb command = ''look'' \<or> verb command = ''examine'' \<longrightarrow>
          truthyNoun command \<noteq> None \<or>
          Some (location (player session)) \<in> set (visitedRooms (player session))"
  shows "case processCommand engine session input of
      Inl e \<Rightarrow> processCommand (withInitial f engine) session input = Inl e
    | Inr (engine', session', result) \<Rightarrow>
        processCommand (withInitial f engine) session input =
          Inr (withInitial f engine', session', result)"
proof (cases "parse input")
  case (Inl e)
  then show ?thesis by (simp add: processCommand_def)
next
  case (Inr command)
  show ?thesis
  proof (cases "valid command")
    case False
    with Inr show ?thesis by (simp add: processCommand_def)
  next
    case True
    from seen Inr have "verb command = ''look'' \<or> verb command = ''examine'' \<longrightarrow>
          truthyNoun command \<noteq> None \<or>
          Some (location (player session)) \<in> set (visitedRooms (player session))"
      by simp
    from dispatch_withInitial [OF keyed this, of f] Inr True show ?thesis
      by (simp add: processCommand_def case_prod_beta)
  qed
qed

lemma handleLook_unvisited:
  assumes room: "getCurrentRoom engine session = Some room"
    and plain: "truthyNoun command = None"
    and lit: "isLit (lighting room)"
    and unvisited: "Some (room_id (identity room)) \<notin> set (visitedRooms (player session))"
    and quiet: "activeVariant room = None"
  shows "\<exists>rest. message (snd (snd (handleLook engine session command))) =
      initial (descriptions room) @ rest"
proof -
  define withObjects where "withObjects =
     (if length (visibleObjects room True) > 0 then
        initial (descriptions room) @ ''\<newline>\<newline>You can see: ''
          @ joinWith '', '' (map obj_name (visibleObjects room True))
      else initial (descriptions room))"
  define withExits where "withExits =
     (if length (visibleExits room) > 0 \<and> True then
        withObjects @ ''\<newline>\<newline>Exits: '' @ joinWith '', '' (visibleExits room)
      else withObjects)"
  have light: "hasLight room (player session)"
    using lit by (simp add: hasLight_def)
  have chosen: "chooseDescription room (player session) True True = initial (descriptions room)"
    using lit unvisited by (simp add: chooseDescription_def)
  have whole: "getRoomDescription room (player session) True =
      foldl (\<lambda>description npc. description @ ''\<newline>\<newline>'' @ npc_description npc)
        withExits (visibleNpcs room (player session))"
    unfolding getRoomDescription_def Let_def withExits_def withObjects_def
    using light chosen quiet by simp
  obtain r1 where r1: "withObjects = initial (descriptions room) @ r1"
    unfolding withObjects_def by (cases "length (visibleObjects room True) > 0") auto
  obtain r2 where r2: "withExits = withObjects @ r2"
    unfolding withExits_def by (cases "length (visibleExits room) > 0") auto
  from foldl_append_prefix [of "''\<newline>\<newline>''" npc_description withExits
      "visibleNpcs room (player session)"]
  obtain r3 where r3: "foldl (\<lambda>description npc. description @ ''\<newline>\<newline>'' @ npc_description npc)
        withExits (visibleNpcs room (player session)) = withExits @ r3"
    by blast
  have "getRoomDescription room (player session) True = withExits @ r3"
    by (simp only: whole r3)
  then have "getRoomDescription room (player session) True =
      initial (descriptions room) @ (r1 @ r2 @ r3)"
    by (simp only: r2 r1 append_assoc)
  moreover have "message (snd (snd (handleLook engine session command))) =
      getRoomDescription room (player session) True"
    using room plain by (simp add: handleLook_def reply_def)
  ultimately show ?thesis
    by (simp only:) blast
qed




section \<open>Taken objects and the room description\<close>

lemma findIndex_Some:
  "findIndex p xs = Some j \<longleftrightarrow> j < length xs \<and> p (xs ! j) \<and> (\<forall>k < j. \<not> p (xs ! k))"
proof (induction xs arbitrary: j)
  case Nil
  show ?case by simp
next
  case (Cons x xs)
  show ?case
  proof (cases "p x")
    case True
    then show ?thesis by (cases j) auto
  next
    case False
    show ?thesis
    proof (cases j)
      case 0
      with False show ?thesis by simp
    next
      case (Suc i)
      have "(\<forall>k < Suc i. \<not> p ((x # xs) ! k)) \<longleftrightarrow> (\<forall>k < i. \<not> p (xs ! k))"
        using False by (auto simp: less_Suc_eq_0_disj)
      with False Suc Cons.IH [of i] show ?thesis by auto
    qed
  qed
qed

lemma findIndex_None: "findIndex p xs = None \<longleftrightarrow> (\<forall>x \<in> set xs. \<not> p x)"
  by (induction xs) auto

lemma handleDrop_exact:
  "(case truthyNoun command of
      None \<Rightarrow> handleDrop engine session command = (engine, session, reply False ''Drop what?'')
    | Some n \<Rightarrow>
        if \<exists>item \<in> set (inventory (player session)). matchesItem item n
        then \<exists>j < length (inventory (player session)).
               matchesItem (inventory (player session) ! j) n \<and>
               (\<forall>k < j. \<not> matchesItem (inventory (player session) ! k) n) \<and>
               fst (handleDrop engine session command) = engine \<and>
               fst (snd (handleDrop engine session command)) =
                 session\<lparr>player := (player session)
                   \<lparr>inventory := take j (inventory (player session)) @
                                   drop (Suc j) (inventory (player session))\<rparr>\<rparr> \<and>
               success (snd (snd (handleDrop engine session command))) \<and>
               message (snd (snd (handleDrop engine session command))) =
                 ''You drop the '' @ item_name (inventory (player session) ! j) @ ''.''
        else handleDrop engine session command =
               (engine, session, reply False (''You don't have \"'' @ n @ ''\".'')))"
proof (cases "truthyNoun command")
  case None
  then show ?thesis by (simp add: handleDrop_def)
next
  case (Some n)
  show ?thesis
  proof (cases "findIndex (\<lambda>i. matchesItem i n) (inventory (player session))")
    case None
    then have "\<not> (\<exists>item \<in> set (inventory (player session)). matchesItem item n)"
      by (simp add: findIndex_None)
    with Some None show ?thesis by (simp add: handleDrop_def)
  next
    case found: (Some j)
    then have j: "j < length (inventory (player session))"
      "matchesItem (inventory (player session) ! j) n"
      "\<forall>k < j. \<not> matchesItem (inventory (player session) ! k) n"
      by (simp_all add: findIndex_Some)
    then have ex: "\<exists>item \<in> set (inventory (player session)). matchesItem item n"
      by (meson nth_mem)
    have out: "fst (handleDrop engine session command) = engine \<and>
        fst (snd (handleDrop engine session command)) =
          session\<lparr>player := (player session)
            \<lparr>inventory := take j (inventory (player session)) @
                            drop (Suc j) (inventory (player session))\<rparr>\<rparr> \<and>
        success (snd (snd (handleDrop engine session command))) \<and>
        message (snd (snd (handleDrop engine session command))) =
          ''You drop the '' @ item_name (inventory (player session) ! j) @ ''.''"
      using Some found by (simp add: handleDrop_def Let_def splice1_def reply_def)
    from j out have "\<exists>j < length (inventory (player session)).
               matchesItem (inventory (player session) ! j) n \<and>
               (\<forall>k < j. \<not> matchesItem (inventory (player session) ! k) n) \<and>
               fst (handleDrop engine session command) = engine \<and>
               fst (snd (handleDrop engine session command)) =
                 session\<lparr>player := (player session)
                   \<lparr>inventory := take j (inventory (player session)) @
                                   drop (Suc j) (inventory (player session))\<rparr>\<rparr> \<and>
               success (snd (snd (handleDrop engine session command))) \<and>
               message (snd (snd (handleDrop engine session command))) =
                 ''You drop the '' @ item_name (inventory (player session) ! j) @ ''.''"
      by (intro exI [of _ j] conjI) (elim conjE, assumption)+
    with Some ex show ?thesis by simp
  qed
qed

lemma hasLight_objects [simp]: "hasLight (room\<lparr>objects := os\<rparr>) p = hasLight room p"
  by (simp add: hasLight_def)

lemma checkNpcSpawnConditions_objects [simp]:
  "checkNpcSpawnConditions cs (room\<lparr>objects := os\<rparr>) p = checkNpcSpawnConditions cs room p"
  by (induction cs) simp_all

lemma getRoomDescription_without_taken:
  assumes "i < length (objects room)" and "taken (objects room ! i)"
  shows "getRoomDescription room p verbose =
     getRoomDescription
       (room\<lparr>objects := take i (objects room) @ drop (Suc i) (objects room)\<rparr>) p verbose"
proof -
  let ?room' = "room\<lparr>objects := take i (objects room) @ drop (Suc i) (objects room)\<rparr>"
  have vis: "visibleObjects room lit = visibleObjects ?room' lit" for lit
    using assms by (rule visibleObjects_without_taken)
  have rest: "chooseDescription ?room' p verbose lit = chooseDescription room p verbose lit"
    "activeVariant ?room' = activeVariant room" "visibleExits ?room' = visibleExits room"
    "visibleNpcs ?room' p = visibleNpcs room p" "descriptions ?room' = descriptions room" for lit
    by (simp_all add: chooseDescription_def Let_def activeVariant_def visibleExits_def visibleNpcs_def)
  show ?thesis
    unfolding getRoomDescription_def Let_def hasLight_objects rest vis [symmetric] ..
qed

lemma handleLook_plain:
  assumes "getCurrentRoom engine session = Some room" and "truthyNoun command = None"
  shows "handleLook engine session command =
     (engine, session, reply True (getRoomDescription room (player session) True))"
  using assms by (simp add: handleLook_def)




end
